theory Spec2Isabelle
  imports Complex_Main
begin

section \<open>The decision scoring engine of Buy-or-Not\<close>

text \<open>
  The engine lives in the component \<open>BuyOrNot\<close> of \<open>src/App.tsx\<close>: a chain of
  \<open>useMemo\<close> projections of the form state. Each projection is modelled as a function
  of the record \<open>ItemInputs\<close>, which holds one snapshot of that state. The first
  part reads every formula of the source in exact real arithmetic. The second part
  (numbers with overflow) repeats the scoring pipeline on a number type with the
  infinities and \<open>NaN\<close>, for the properties that depend on them.
\<close>

subsection \<open>Helpers\<close>

text \<open>\<^verbatim>\<open>const clamp = (v, lo = 0, hi = 100) => Math.max(lo, Math.min(hi, v))\<close>\<close>

definition clamp :: "real \<Rightarrow> real \<Rightarrow> real \<Rightarrow> real" where
  "clamp v lo hi = max lo (min hi v)"

text \<open>The call \<open>clamp(v)\<close> with both default arguments.\<close>

definition clamp_default :: "real \<Rightarrow> real" where
  "clamp_default v = clamp v 0 100"

text \<open>\<open>Math.round\<close> rounds to the nearest integer, a tie going towards plus infinity.\<close>

definition Math_round :: "real \<Rightarrow> int" where
  "Math_round x = \<lfloor>x + 1 / 2\<rfloor>"

subsection \<open>Presets\<close>

record ConditionPreset =
  key :: string
  label :: string
  probMult :: real
  priceMult :: real

record DemandPreset =
  key :: string
  label :: string
  probMult :: real
  timeHoursAdd :: real

definition CONDITION_PRESETS :: "ConditionPreset list" where
  "CONDITION_PRESETS =
    [\<lparr>ConditionPreset.key = ''new'', label = ''New (unopened)'', probMult = 1.0, priceMult = 1.0\<rparr>,
     \<lparr>ConditionPreset.key = ''like_new'', label = ''Like New'', probMult = 1.05, priceMult = 0.95\<rparr>,
     \<lparr>ConditionPreset.key = ''good'', label = ''Good'', probMult = 1.0, priceMult = 0.9\<rparr>,
     \<lparr>ConditionPreset.key = ''fair'', label = ''Fair'', probMult = 0.85, priceMult = 0.8\<rparr>,
     \<lparr>ConditionPreset.key = ''poor'', label = ''Poor'', probMult = 0.7, priceMult = 0.65\<rparr>]"

definition DEMAND_PRESETS :: "DemandPreset list" where
  "DEMAND_PRESETS =
    [\<lparr>DemandPreset.key = ''high'', label = ''High demand'', probMult = 1.15, timeHoursAdd = - 0.5\<rparr>,
     \<lparr>DemandPreset.key = ''medium'', label = ''Medium'', probMult = 1.0, timeHoursAdd = 0\<rparr>,
     \<lparr>DemandPreset.key = ''low'', label = ''Low demand'', probMult = 0.8, timeHoursAdd = 0.75\<rparr>]"

subsection \<open>The form state\<close>

record ItemInputs =
  price :: real
  taxRatePct :: real
  budgetImpact :: real
  needLevel :: real
  useFrequency :: real
  joyScore :: real
  longevity :: real
  workRelated :: bool
  expectSalePrice :: real
  saleProbabilityPct :: real
  platformFees :: real
  shipCost :: real
  timeHours :: real
  hourlyValue :: real
  friction :: real
  resaleAggressive :: bool
  condKey :: string
  demandKey :: string
  simulateWait :: bool
  targetDiscountPct :: real
  monthsToWait :: real
  monthsOwn :: real
  usesPerWeek :: real
  keepOldItem :: bool
  minimalismStrength :: real
  returnPolicy :: real
  warranty :: real
  spaceFit :: real
  altAvailable :: real
  urgency :: real
  wFinancial :: real
  wUtility :: real
  wRisk :: real

text \<open>The initial state of the form: the arguments of the \<open>useState\<close> calls.\<close>

definition initialInputs :: ItemInputs where
  "initialInputs =
    \<lparr>price = 500, taxRatePct = 13, budgetImpact = 5, needLevel = 4, useFrequency = 7,
     joyScore = 6, longevity = 6, workRelated = False, expectSalePrice = 250,
     saleProbabilityPct = 80, platformFees = 25, shipCost = 20, timeHours = 2,
     hourlyValue = 40, friction = 10, resaleAggressive = False, condKey = ''like_new'',
     demandKey = ''medium'', simulateWait = False, targetDiscountPct = 10,
     monthsToWait = 1, monthsOwn = 24, usesPerWeek = 5, keepOldItem = False,
     minimalismStrength = 6, returnPolicy = 7, warranty = 6, spaceFit = 8,
     altAvailable = 5, urgency = 4, wFinancial = 0.45, wUtility = 0.4, wRisk = 0.15\<rparr>"

subsection \<open>Condition and demand lookup\<close>

text \<open>
  \<^verbatim>\<open>CONDITION_PRESETS.find((c) => c.key === condKey) ?? CONDITION_PRESETS[1]\<close>:
  the first entry with the key, else the entry at index 1.
\<close>

definition cond :: "ItemInputs \<Rightarrow> ConditionPreset" where
  "cond i =
    (case List.find (\<lambda>c. ConditionPreset.key c = condKey i) CONDITION_PRESETS of
       Some c \<Rightarrow> c
     | None \<Rightarrow> CONDITION_PRESETS ! 1)"

definition demand :: "ItemInputs \<Rightarrow> DemandPreset" where
  "demand i =
    (case List.find (\<lambda>d. DemandPreset.key d = demandKey i) DEMAND_PRESETS of
       Some d \<Rightarrow> d
     | None \<Rightarrow> DEMAND_PRESETS ! 1)"

subsection \<open>Derived costs\<close>

definition taxFor :: "ItemInputs \<Rightarrow> real \<Rightarrow> real" where
  "taxFor i p = (p * taxRatePct i) / 100"

definition stickerCost :: "ItemInputs \<Rightarrow> real" where
  "stickerCost i = price i + taxFor i (price i)"

definition stickerCostWait :: "ItemInputs \<Rightarrow> real" where
  "stickerCostWait i =
    (let discounted = price i * (1 - targetDiscountPct i / 100)
     in discounted + taxFor i discounted)"

subsection \<open>Resale assumptions adjusted by condition and demand\<close>

definition adjSaleProb :: "ItemInputs \<Rightarrow> real" where
  "adjSaleProb i =
    clamp (saleProbabilityPct i * ConditionPreset.probMult (cond i)
             * DemandPreset.probMult (demand i)) 0 100"

text \<open>
  Every entry of \<open>DEMAND_PRESETS\<close> has the field \<open>timeHoursAdd\<close>, so the source's
  \<open>demand.timeHoursAdd ?? 0\<close> is the field itself.
\<close>

definition adjTimeHours :: "ItemInputs \<Rightarrow> real" where
  "adjTimeHours i = max 0 (timeHours i + timeHoursAdd (demand i))"

definition adjSalePrice :: "ItemInputs \<Rightarrow> real" where
  "adjSalePrice i = expectSalePrice i * priceMult (cond i)"

subsection \<open>Resale offset, effective cost, cost per use\<close>

definition resaleOffset :: "ItemInputs \<Rightarrow> real" where
  "resaleOffset i =
    (let prob = adjSaleProb i / 100;
         gross = adjSalePrice i * prob;
         timeCost = adjTimeHours i * hourlyValue i;
         offset = gross - platformFees i - shipCost i - timeCost - friction i
     in max 0 offset)"

definition effectiveCost :: "ItemInputs \<Rightarrow> real" where
  "effectiveCost i = max 0 (stickerCost i - resaleOffset i)"

definition totalExpectedUses :: "ItemInputs \<Rightarrow> real" where
  "totalExpectedUses i = max 1 (usesPerWeek i * 4.33 * monthsOwn i)"

definition costPerUse :: "ItemInputs \<Rightarrow> real" where
  "costPerUse i = effectiveCost i / totalExpectedUses i"

subsection \<open>The three sub-scores\<close>

definition financialScore :: "ItemInputs \<Rightarrow> real" where
  "financialScore i =
    (let affordability = clamp_default (100 - budgetImpact i * 10);
         usage = clamp_default (useFrequency i * 8 + longevity i * 4);
         priceDrag = clamp_default (100 - (effectiveCost i / max 1 (price i)) * 50);
         resaleBonus =
           (if resaleAggressive i
            then clamp_default ((resaleOffset i / max 1 (stickerCost i)) * 100) * 0.2
            else 0);
         cpuBonus = (if costPerUse i < 1 then 8 else if costPerUse i < 3 then 5 else 0);
         base = 0.43 * affordability + 0.32 * usage + 0.2 * priceDrag + resaleBonus + cpuBonus
     in clamp_default base)"

definition utilityScore :: "ItemInputs \<Rightarrow> real" where
  "utilityScore i =
    (let need = needLevel i * 10;
         joy = joyScore i * 10;
         freq = useFrequency i * 8;
         work = (if workRelated i then 10 else 0);
         aggressiveNudge =
           (if resaleAggressive i
            then min 10 ((resaleOffset i / max 1 (stickerCost i)) * 50)
            else 0)
     in clamp_default (0.4 * need + 0.35 * freq + 0.25 * joy + work + aggressiveNudge))"

definition riskScore :: "ItemInputs \<Rightarrow> real" where
  "riskScore i =
    (let returns = returnPolicy i * 10;
         warr = warranty i * 8;
         space = spaceFit i * 8;
         alt = 100 - altAvailable i * 7;
         urg = urgency i * 6;
         clutterPenalty = (if keepOldItem i then minimalismStrength i else 0);
         base = 0.3 * returns + 0.25 * warr + 0.25 * space + 0.1 * alt + 0.1 * urg
                  - clutterPenalty
     in clamp_default base)"

subsection \<open>Decision score and verdict\<close>

definition decisionScore :: "ItemInputs \<Rightarrow> int" where
  "decisionScore i =
    (let weighted = wFinancial i * financialScore i + wUtility i * utilityScore i
                      + wRisk i * riskScore i
     in Math_round (clamp_default weighted))"

datatype Tone = green | blue | yellow | red

record Verdict =
  label :: string
  tone :: Tone

text \<open>The banding of the memo \<open>verdict\<close>, as a function of the decision score it reads.\<close>

definition verdictFor :: "int \<Rightarrow> Verdict" where
  "verdictFor d =
    (if d \<ge> 80 then \<lparr>Verdict.label = ''Buy'', tone = green\<rparr>
     else if d \<ge> 65 then \<lparr>Verdict.label = ''Lean Buy (watch price)'', tone = blue\<rparr>
     else if d \<ge> 50 then \<lparr>Verdict.label = ''Wait / Re-evaluate'', tone = yellow\<rparr>
     else \<lparr>Verdict.label = ''Skip for now'', tone = red\<rparr>)"

definition verdict :: "ItemInputs \<Rightarrow> Verdict" where
  "verdict i = verdictFor (decisionScore i)"

subsection \<open>Sensitivity\<close>

definition bestOffset :: "ItemInputs \<Rightarrow> real" where
  "bestOffset i =
    max 0 (adjSalePrice i - platformFees i - shipCost i - adjTimeHours i * hourlyValue i
             - friction i)"

definition scoreFor :: "ItemInputs \<Rightarrow> real \<Rightarrow> real \<Rightarrow> int" where
  "scoreFor i sticker offset =
    (let eff = max 0 (sticker - offset);
         affordability = clamp_default (100 - budgetImpact i * 10);
         usage = clamp_default (useFrequency i * 8 + longevity i * 4);
         priceDrag = clamp_default (100 - (eff / max 1 (price i)) * 50);
         resaleBonus =
           (if resaleAggressive i
            then clamp_default ((offset / max 1 sticker) * 100) * 0.2
            else 0);
         fin = clamp_default (0.43 * affordability + 0.32 * usage + 0.2 * priceDrag + resaleBonus);
         utilAgg =
           (if resaleAggressive i then min 10 ((offset / max 1 sticker) * 50) else 0);
         util = clamp_default (0.4 * needLevel i * 10 + 0.35 * useFrequency i * 8
                                 + 0.25 * joyScore i * 10
                                 + (if workRelated i then 10 else 0) + utilAgg);
         risk = riskScore i;
         weighted = wFinancial i * fin + wUtility i * util + wRisk i * risk
     in Math_round (clamp_default weighted))"

record Sensitivity =
  current :: int
  noResale :: int
  bestResale :: int
  waitSale :: "int option"

text \<open>
  The callback of the memo \<open>sensitivity\<close>, evaluated in the render of the form state
  \<open>i\<close>: what the memo returns whenever it evaluates its callback, in particular on
  the first render. The cell that decides when it does is modelled further below.
\<close>

definition sensitivity :: "ItemInputs \<Rightarrow> Sensitivity" where
  "sensitivity i =
    \<lparr>current = decisionScore i,
     noResale = scoreFor i (stickerCost i) 0,
     bestResale = scoreFor i (stickerCost i) (bestOffset i),
     waitSale =
       (if simulateWait i then Some (scoreFor i (stickerCostWait i) (resaleOffset i))
        else None)\<rparr>"

subsection \<open>The memo cell of \<open>sensitivity\<close>\<close>

text \<open>
  In the source \<open>sensitivity\<close> is \<open>useMemo(callback, deps)\<close>. The definition
  \<open>sensitivity\<close> above is the callback, evaluated in the render of the form state \<open>i\<close>.
  The hook keeps a cell with the dependency values and the result of the last evaluation.
  On the first render it evaluates the callback; on a later render it compares the new
  dependency values with the stored ones and, when all are equal, returns the stored
  result without evaluating the callback. The dependency array of \<open>sensitivity\<close> is
  \<^verbatim>\<open>[decisionScore, stickerCost, stickerCostWait, resaleOffset, bestOffset, simulateWait]\<close>.
  Every other memo of the component lists all the values its callback reads, so its
  result is a function of the current form state and needs no cell in the model.
\<close>

type_synonym SensitivityDeps = "int \<times> real \<times> real \<times> real \<times> real \<times> bool"

definition sensitivityDeps :: "ItemInputs \<Rightarrow> SensitivityDeps" where
  "sensitivityDeps i =
    (decisionScore i, stickerCost i, stickerCostWait i, resaleOffset i, bestOffset i,
     simulateWait i)"

text \<open>
  One call of the hook: \<open>cell\<close> is the stored pair (none before the first render),
  \<open>v\<close> the value the callback has in this render, \<open>deps\<close> the dependency values of
  this render. The result is the new cell; its second component is what the hook returns.
\<close>

definition useMemo :: "('d \<times> 'a) option \<Rightarrow> 'a \<Rightarrow> 'd \<Rightarrow> 'd \<times> 'a" where
  "useMemo cell v deps =
    (case cell of
       None \<Rightarrow> (deps, v)
     | Some (d, c) \<Rightarrow> if d = deps then (d, c) else (deps, v))"

definition sensitivityMemo ::
  "(SensitivityDeps \<times> Sensitivity) option \<Rightarrow> ItemInputs \<Rightarrow> SensitivityDeps \<times> Sensitivity" where
  "sensitivityMemo cell i = useMemo cell (sensitivity i) (sensitivityDeps i)"

text \<open>The cell after a sequence of renders, one form state per render.\<close>

fun renders ::
  "(SensitivityDeps \<times> Sensitivity) option \<Rightarrow> ItemInputs list
     \<Rightarrow> (SensitivityDeps \<times> Sensitivity) option" where
  "renders cell [] = cell"
| "renders cell (i # rest) = renders (Some (sensitivityMemo cell i)) rest"

text \<open>What the component holds as \<open>sensitivity\<close> after the renders, starting at mount.\<close>

definition shownSensitivity :: "ItemInputs list \<Rightarrow> Sensitivity option" where
  "shownSensitivity states = map_option snd (renders None states)"

text \<open>
  A session of the form: the initial state, the wait-for-sale toggle switched on, the
  target discount set to 40, the longevity slider moved from 6 to 5.
\<close>

definition waitA :: ItemInputs where
  "waitA = initialInputs\<lparr>simulateWait := True, targetDiscountPct := 40\<rparr>"

definition waitB :: ItemInputs where
  "waitB = waitA\<lparr>longevity := 5\<rparr>"

definition waitSession :: "ItemInputs list" where
  "waitSession = [initialInputs, initialInputs\<lparr>simulateWait := True\<rparr>, waitA, waitB]"

section \<open>Numbers with overflow\<close>

text \<open>
  The definitions above read the source in exact arithmetic. A JavaScript number is an
  IEEE double: a result whose magnitude passes the largest double becomes an infinity,
  and sums or products of infinities can be \<open>NaN\<close>. The type \<open>number\<close> adds these
  values to the reals, and the definitions with the suffix \<open>_js\<close> repeat the scoring
  pipeline on it, again term for term from the source. The fields of \<open>ItemInputs\<close> are
  reals, that is, finite numbers. Two things stay outside this model as well: the
  rounding of a finite result to 53 bits (finite results are kept exact) and the sign
  of zero.
\<close>

datatype number = Fin real | PosInf | NegInf | NaN

text \<open>
  A result of magnitude \<open>2^1024 - 2^970\<close> or more rounds to an infinity; that is half
  a unit in the last place above the largest double.
\<close>

definition overflowBound :: real where
  "overflowBound = 2 ^ 1024 - 2 ^ 970"

definition fromReal :: "real \<Rightarrow> number" where
  "fromReal r =
    (if overflowBound \<le> r then PosInf else if r \<le> - overflowBound then NegInf else Fin r)"

instantiation number :: "{plus, uminus, minus, times, inverse}"
begin

fun plus_number :: "number \<Rightarrow> number \<Rightarrow> number" where
  "plus_number NaN y = NaN"
| "plus_number x NaN = NaN"
| "plus_number (Fin a) (Fin b) = fromReal (a + b)"
| "plus_number PosInf NegInf = NaN"
| "plus_number NegInf PosInf = NaN"
| "plus_number PosInf y = PosInf"
| "plus_number x PosInf = PosInf"
| "plus_number NegInf y = NegInf"
| "plus_number x NegInf = NegInf"

fun uminus_number :: "number \<Rightarrow> number" where
  "uminus_number (Fin a) = Fin (- a)"
| "uminus_number PosInf = NegInf"
| "uminus_number NegInf = PosInf"
| "uminus_number NaN = NaN"

definition minus_number :: "number \<Rightarrow> number \<Rightarrow> number" where
  "minus_number x y = x + (- y)"

fun times_number :: "number \<Rightarrow> number \<Rightarrow> number" where
  "times_number NaN y = NaN"
| "times_number x NaN = NaN"
| "times_number (Fin a) (Fin b) = fromReal (a * b)"
| "times_number (Fin a) PosInf = (if a = 0 then NaN else if 0 < a then PosInf else NegInf)"
| "times_number (Fin a) NegInf = (if a = 0 then NaN else if 0 < a then NegInf else PosInf)"
| "times_number PosInf (Fin b) = (if b = 0 then NaN else if 0 < b then PosInf else NegInf)"
| "times_number NegInf (Fin b) = (if b = 0 then NaN else if 0 < b then NegInf else PosInf)"
| "times_number PosInf PosInf = PosInf"
| "times_number PosInf NegInf = NegInf"
| "times_number NegInf PosInf = NegInf"
| "times_number NegInf NegInf = PosInf"

text \<open>
  Division: a finite number over an infinity is zero, an infinity over an infinity is
  \<open>NaN\<close>, and zero is taken as positive zero where it is the divisor. The pipeline
  divides only by 100 and by \<open>Math.max(1, \<dots>)\<close>.
\<close>

fun divide_number :: "number \<Rightarrow> number \<Rightarrow> number" where
  "divide_number NaN y = NaN"
| "divide_number x NaN = NaN"
| "divide_number (Fin a) (Fin b) =
    (if b = 0 then (if a = 0 then NaN else if 0 < a then PosInf else NegInf)
     else fromReal (a / b))"
| "divide_number (Fin a) y = Fin 0"
| "divide_number PosInf (Fin b) = (if 0 \<le> b then PosInf else NegInf)"
| "divide_number NegInf (Fin b) = (if 0 \<le> b then NegInf else PosInf)"
| "divide_number x y = NaN"

definition inverse_number :: "number \<Rightarrow> number" where
  "inverse_number x = divide (Fin 1) x"

instance ..

end

text \<open>\<open>Math.max\<close> and \<open>Math.min\<close> return \<open>NaN\<close> when an argument is \<open>NaN\<close>.\<close>

fun Math_max :: "number \<Rightarrow> number \<Rightarrow> number" where
  "Math_max NaN y = NaN"
| "Math_max x NaN = NaN"
| "Math_max (Fin a) (Fin b) = Fin (max a b)"
| "Math_max PosInf y = PosInf"
| "Math_max x PosInf = PosInf"
| "Math_max NegInf y = y"
| "Math_max x NegInf = x"

fun Math_min :: "number \<Rightarrow> number \<Rightarrow> number" where
  "Math_min NaN y = NaN"
| "Math_min x NaN = NaN"
| "Math_min (Fin a) (Fin b) = Fin (min a b)"
| "Math_min NegInf y = NegInf"
| "Math_min x NegInf = NegInf"
| "Math_min PosInf y = y"
| "Math_min x PosInf = x"

text \<open>The comparison \<open>x < y\<close>: false when an argument is \<open>NaN\<close>.\<close>

fun lessThan_js :: "number \<Rightarrow> number \<Rightarrow> bool" where
  "lessThan_js NaN y = False"
| "lessThan_js x NaN = False"
| "lessThan_js (Fin a) (Fin b) = (a < b)"
| "lessThan_js x NegInf = False"
| "lessThan_js NegInf y = True"
| "lessThan_js PosInf y = False"
| "lessThan_js x PosInf = True"

text \<open>\<open>Math.round\<close> leaves \<open>NaN\<close> and the infinities as they are.\<close>

fun Math_round_js :: "number \<Rightarrow> number" where
  "Math_round_js (Fin r) = Fin (of_int (Math_round r))"
| "Math_round_js x = x"

definition clamp_js :: "number \<Rightarrow> number \<Rightarrow> number \<Rightarrow> number" where
  "clamp_js v lo hi = Math_max lo (Math_min hi v)"

definition clamp_default_js :: "number \<Rightarrow> number" where
  "clamp_default_js v = clamp_js v (Fin 0) (Fin 100)"

subsection \<open>The scoring pipeline on numbers with overflow\<close>

definition taxFor_js :: "ItemInputs \<Rightarrow> number \<Rightarrow> number" where
  "taxFor_js i p = (p * Fin (taxRatePct i)) / Fin 100"

definition stickerCost_js :: "ItemInputs \<Rightarrow> number" where
  "stickerCost_js i = Fin (price i) + taxFor_js i (Fin (price i))"

definition adjSaleProb_js :: "ItemInputs \<Rightarrow> number" where
  "adjSaleProb_js i =
    clamp_js (Fin (saleProbabilityPct i) * Fin (ConditionPreset.probMult (cond i))
                * Fin (DemandPreset.probMult (demand i))) (Fin 0) (Fin 100)"

definition adjTimeHours_js :: "ItemInputs \<Rightarrow> number" where
  "adjTimeHours_js i = Math_max (Fin 0) (Fin (timeHours i) + Fin (timeHoursAdd (demand i)))"

definition adjSalePrice_js :: "ItemInputs \<Rightarrow> number" where
  "adjSalePrice_js i = Fin (expectSalePrice i) * Fin (priceMult (cond i))"

definition resaleOffset_js :: "ItemInputs \<Rightarrow> number" where
  "resaleOffset_js i =
    (let prob = adjSaleProb_js i / Fin 100;
         gross = adjSalePrice_js i * prob;
         timeCost = adjTimeHours_js i * Fin (hourlyValue i);
         offset = gross - Fin (platformFees i) - Fin (shipCost i) - timeCost - Fin (friction i)
     in Math_max (Fin 0) offset)"

definition effectiveCost_js :: "ItemInputs \<Rightarrow> number" where
  "effectiveCost_js i = Math_max (Fin 0) (stickerCost_js i - resaleOffset_js i)"

definition totalExpectedUses_js :: "ItemInputs \<Rightarrow> number" where
  "totalExpectedUses_js i =
    Math_max (Fin 1) (Fin (usesPerWeek i) * Fin 4.33 * Fin (monthsOwn i))"

definition costPerUse_js :: "ItemInputs \<Rightarrow> number" where
  "costPerUse_js i = effectiveCost_js i / totalExpectedUses_js i"

definition financialScore_js :: "ItemInputs \<Rightarrow> number" where
  "financialScore_js i =
    (let affordability = clamp_default_js (Fin 100 - Fin (budgetImpact i) * Fin 10);
         usage = clamp_default_js (Fin (useFrequency i) * Fin 8 + Fin (longevity i) * Fin 4);
         priceDrag =
           clamp_default_js
             (Fin 100 - (effectiveCost_js i / Math_max (Fin 1) (Fin (price i))) * Fin 50);
         resaleBonus =
           (if resaleAggressive i
            then clamp_default_js
                   ((resaleOffset_js i / Math_max (Fin 1) (stickerCost_js i)) * Fin 100)
                 * Fin 0.2
            else Fin 0);
         cpuBonus =
           (if lessThan_js (costPerUse_js i) (Fin 1) then Fin 8
            else if lessThan_js (costPerUse_js i) (Fin 3) then Fin 5 else Fin 0);
         base = Fin 0.43 * affordability + Fin 0.32 * usage + Fin 0.2 * priceDrag
                  + resaleBonus + cpuBonus
     in clamp_default_js base)"

definition utilityScore_js :: "ItemInputs \<Rightarrow> number" where
  "utilityScore_js i =
    (let need = Fin (needLevel i) * Fin 10;
         joy = Fin (joyScore i) * Fin 10;
         freq = Fin (useFrequency i) * Fin 8;
         work = (if workRelated i then Fin 10 else Fin 0);
         aggressiveNudge =
           (if resaleAggressive i
            then Math_min (Fin 10)
                   ((resaleOffset_js i / Math_max (Fin 1) (stickerCost_js i)) * Fin 50)
            else Fin 0)
     in clamp_default_js
          (Fin 0.4 * need + Fin 0.35 * freq + Fin 0.25 * joy + work + aggressiveNudge))"

definition riskScore_js :: "ItemInputs \<Rightarrow> number" where
  "riskScore_js i =
    (let returns = Fin (returnPolicy i) * Fin 10;
         warr = Fin (warranty i) * Fin 8;
         space = Fin (spaceFit i) * Fin 8;
         alt = Fin 100 - Fin (altAvailable i) * Fin 7;
         urg = Fin (urgency i) * Fin 6;
         clutterPenalty = (if keepOldItem i then Fin (minimalismStrength i) else Fin 0);
         base = Fin 0.3 * returns + Fin 0.25 * warr + Fin 0.25 * space + Fin 0.1 * alt
                  + Fin 0.1 * urg - clutterPenalty
     in clamp_default_js base)"

definition decisionScore_js :: "ItemInputs \<Rightarrow> number" where
  "decisionScore_js i =
    (let weighted = Fin (wFinancial i) * financialScore_js i
                      + Fin (wUtility i) * utilityScore_js i
                      + Fin (wRisk i) * riskScore_js i
     in Math_round_js (clamp_default_js weighted))"

subsection \<open>Predicates on results and inputs\<close>

definition inRange :: "number \<Rightarrow> bool" where
  "inRange x = (case x of Fin r \<Rightarrow> 0 \<le> r \<and> r \<le> 100 | _ \<Rightarrow> False)"

definition isInteger :: "number \<Rightarrow> bool" where
  "isInteger x = (case x of Fin r \<Rightarrow> of_int \<lfloor>r\<rfloor> = r | _ \<Rightarrow> False)"

text \<open>Every numeric field has magnitude at most \<open>b\<close>.\<close>

definition fieldsWithin :: "real \<Rightarrow> ItemInputs \<Rightarrow> bool" where
  "fieldsWithin b i =
    (\<bar>price i\<bar> \<le> b \<and> \<bar>taxRatePct i\<bar> \<le> b \<and> \<bar>budgetImpact i\<bar> \<le> b \<and> \<bar>needLevel i\<bar> \<le> b \<and>
     \<bar>useFrequency i\<bar> \<le> b \<and> \<bar>joyScore i\<bar> \<le> b \<and> \<bar>longevity i\<bar> \<le> b \<and>
     \<bar>expectSalePrice i\<bar> \<le> b \<and> \<bar>saleProbabilityPct i\<bar> \<le> b \<and> \<bar>platformFees i\<bar> \<le> b \<and>
     \<bar>shipCost i\<bar> \<le> b \<and> \<bar>timeHours i\<bar> \<le> b \<and> \<bar>hourlyValue i\<bar> \<le> b \<and> \<bar>friction i\<bar> \<le> b \<and>
     \<bar>targetDiscountPct i\<bar> \<le> b \<and> \<bar>monthsToWait i\<bar> \<le> b \<and> \<bar>monthsOwn i\<bar> \<le> b \<and>
     \<bar>usesPerWeek i\<bar> \<le> b \<and> \<bar>minimalismStrength i\<bar> \<le> b \<and> \<bar>returnPolicy i\<bar> \<le> b \<and>
     \<bar>warranty i\<bar> \<le> b \<and> \<bar>spaceFit i\<bar> \<le> b \<and> \<bar>altAvailable i\<bar> \<le> b \<and> \<bar>urgency i\<bar> \<le> b \<and>
     \<bar>wFinancial i\<bar> \<le> b \<and> \<bar>wUtility i\<bar> \<le> b \<and> \<bar>wRisk i\<bar> \<le> b)"

text \<open>The number is finite and its magnitude is at most \<open>b\<close>.\<close>

definition boundedBy :: "real \<Rightarrow> number \<Rightarrow> bool" where
  "boundedBy b x = (case x of Fin r \<Rightarrow> \<bar>r\<bar> \<le> b | _ \<Rightarrow> False)"

text \<open>
  The initial form state with the weights typed as \<open>1e308\<close> and \<open>-1e308\<close>, both
  finite numbers below the overflow bound.
\<close>

definition overflowWeight :: real where
  "overflowWeight = 10 ^ 308"

definition overflowInputs :: ItemInputs where
  "overflowInputs = initialInputs\<lparr>wFinancial := overflowWeight, wUtility := - overflowWeight\<rparr>"

section \<open>Properties of the engine\<close>

subsection \<open>Clamping and rounding\<close>

lemma clamp_default_range: "0 \<le> clamp_default v \<and> clamp_default v \<le> 100"
  by (simp add: clamp_default_def clamp_def)

lemma clamp_default_mono: "v \<le> w \<Longrightarrow> clamp_default v \<le> clamp_default w"
  unfolding clamp_default_def clamp_def by linarith

lemma Math_round_range:
  assumes "0 \<le> x" and "x \<le> 100"
  shows "0 \<le> Math_round x \<and> Math_round x \<le> 100"
proof -
  have "0 \<le> \<lfloor>x + 1 / 2\<rfloor>" using assms(1) by simp
  moreover have "\<lfloor>x + 1 / 2\<rfloor> \<le> 100" using assms(2) by (simp add: floor_le_iff)
  ultimately show ?thesis by (simp add: Math_round_def)
qed

lemma Math_round_mono: "x \<le> y \<Longrightarrow> Math_round x \<le> Math_round y"
  by (simp add: Math_round_def floor_mono)

subsection \<open>Score ranges\<close>

lemma financialScore_range: "0 \<le> financialScore i \<and> financialScore i \<le> 100"
  by (simp add: financialScore_def Let_def clamp_default_range)

lemma utilityScore_range: "0 \<le> utilityScore i \<and> utilityScore i \<le> 100"
  by (simp add: utilityScore_def Let_def clamp_default_range)

lemma riskScore_range: "0 \<le> riskScore i \<and> riskScore i \<le> 100"
  by (simp add: riskScore_def Let_def clamp_default_range)

lemma decisionScore_range: "0 \<le> decisionScore i \<and> decisionScore i \<le> 100"
  unfolding decisionScore_def Let_def
  by (rule Math_round_range) (simp_all add: clamp_default_range)

text \<open>
  In exact arithmetic every score lies between 0 and 100. On numbers with overflow this
  holds only while no intermediate result overflows; see the last section.
\<close>

lemma scores_in_range_exact:
  "0 \<le> financialScore i \<and> financialScore i \<le> 100 \<and>
   0 \<le> utilityScore i \<and> utilityScore i \<le> 100 \<and>
   0 \<le> riskScore i \<and> riskScore i \<le> 100 \<and>
   0 \<le> decisionScore i \<and> decisionScore i \<le> 100"
  using financialScore_range [of i] utilityScore_range [of i] riskScore_range [of i]
    decisionScore_range [of i]
  by simp

subsection \<open>Verdict banding\<close>

text \<open>
  Claim C2. The verdict label is read off the decision score from the top band down,
  each band including its lower bound: at least 80 is "Buy", else at least 65 is
  "Lean Buy (watch price)", else at least 50 is "Wait / Re-evaluate", else
  "Skip for now". The scores 80, 65 and 50 fall in the higher band, and 79, 64 and 49
  in the lower one.
\<close>

theorem verdict_banding:
  "Verdict.label (verdict i) =
     (if decisionScore i \<ge> 80 then ''Buy''
      else if decisionScore i \<ge> 65 then ''Lean Buy (watch price)''
      else if decisionScore i \<ge> 50 then ''Wait / Re-evaluate''
      else ''Skip for now'') \<and>
   Verdict.label (verdictFor 80) = ''Buy'' \<and>
   Verdict.label (verdictFor 79) = ''Lean Buy (watch price)'' \<and>
   Verdict.label (verdictFor 65) = ''Lean Buy (watch price)'' \<and>
   Verdict.label (verdictFor 64) = ''Wait / Re-evaluate'' \<and>
   Verdict.label (verdictFor 50) = ''Wait / Re-evaluate'' \<and>
   Verdict.label (verdictFor 49) = ''Skip for now''"
  by (simp add: verdict_def verdictFor_def)

subsection \<open>Preset lookup\<close>

lemma cond_in_presets: "cond i \<in> set CONDITION_PRESETS"
  by (simp add: cond_def CONDITION_PRESETS_def)

lemma demand_in_presets: "demand i \<in> set DEMAND_PRESETS"
  by (simp add: demand_def DEMAND_PRESETS_def)


text \<open>
  Claim C9. The two lookups are total: whatever the key, \<open>cond\<close> returns an entry of
  the condition table and \<open>demand\<close> an entry of the demand table. A key of the table
  selects the entry with that key; any other key selects the entry "like_new", for
  demand the entry "medium".
\<close>

theorem lookups_total:
  "cond i \<in> set CONDITION_PRESETS \<and>
   ConditionPreset.key (cond i) =
     (if condKey i \<in> {''new'', ''like_new'', ''good'', ''fair'', ''poor''} then condKey i
      else ''like_new'') \<and>
   demand i \<in> set DEMAND_PRESETS \<and>
   DemandPreset.key (demand i) =
     (if demandKey i \<in> {''high'', ''medium'', ''low''} then demandKey i else ''medium'')"
  by (simp add: cond_def demand_def CONDITION_PRESETS_def DEMAND_PRESETS_def)

subsection \<open>The initial form state, evaluated\<close>

lemma initialInputs_fields:
  "price initialInputs = 500" "taxRatePct initialInputs = 13" "budgetImpact initialInputs = 5"
  "needLevel initialInputs = 4" "useFrequency initialInputs = 7" "joyScore initialInputs = 6"
  "longevity initialInputs = 6" "workRelated initialInputs = False"
  "expectSalePrice initialInputs = 250" "saleProbabilityPct initialInputs = 80"
  "platformFees initialInputs = 25" "shipCost initialInputs = 20" "timeHours initialInputs = 2"
  "hourlyValue initialInputs = 40" "friction initialInputs = 10"
  "resaleAggressive initialInputs = False" "condKey initialInputs = ''like_new''"
  "demandKey initialInputs = ''medium''" "simulateWait initialInputs = False"
  "targetDiscountPct initialInputs = 10" "monthsToWait initialInputs = 1"
  "monthsOwn initialInputs = 24" "usesPerWeek initialInputs = 5"
  "keepOldItem initialInputs = False" "minimalismStrength initialInputs = 6"
  "returnPolicy initialInputs = 7" "warranty initialInputs = 6" "spaceFit initialInputs = 8"
  "altAvailable initialInputs = 5" "urgency initialInputs = 4"
  "wFinancial initialInputs = 0.45" "wUtility initialInputs = 0.4" "wRisk initialInputs = 0.15"
  by (simp_all add: initialInputs_def)

lemma cond_initialInputs: "cond initialInputs = CONDITION_PRESETS ! 1"
  by (simp add: cond_def initialInputs_fields CONDITION_PRESETS_def)

lemma demand_initialInputs: "demand initialInputs = DEMAND_PRESETS ! 1"
  by (simp add: demand_def initialInputs_fields DEMAND_PRESETS_def)

lemma stickerCost_initialInputs: "stickerCost initialInputs = 565"
  by (simp add: stickerCost_def taxFor_def initialInputs_fields)

lemma resaleOffset_initialInputs: "resaleOffset initialInputs = 64.5"
  by (simp add: resaleOffset_def adjSaleProb_def adjSalePrice_def adjTimeHours_def Let_def
        cond_initialInputs demand_initialInputs CONDITION_PRESETS_def DEMAND_PRESETS_def
        clamp_def initialInputs_fields)

lemma bestOffset_initialInputs: "bestOffset initialInputs = 102.5"
  by (simp add: bestOffset_def adjSalePrice_def adjTimeHours_def
        cond_initialInputs demand_initialInputs CONDITION_PRESETS_def DEMAND_PRESETS_def
        initialInputs_fields)

lemma effectiveCost_initialInputs: "effectiveCost initialInputs = 500.5"
  by (simp add: effectiveCost_def stickerCost_initialInputs resaleOffset_initialInputs)

lemma costPerUse_initialInputs: "costPerUse initialInputs = 5005 / 5196"
  by (simp add: costPerUse_def totalExpectedUses_def effectiveCost_initialInputs
        initialInputs_fields)

lemma financialScore_initialInputs: "financialScore initialInputs = 65.09"
  by (simp add: financialScore_def Let_def costPerUse_initialInputs effectiveCost_initialInputs
        clamp_default_def clamp_def initialInputs_fields)

lemma utilityScore_initialInputs: "utilityScore initialInputs = 50.6"
  by (simp add: utilityScore_def Let_def clamp_default_def clamp_def initialInputs_fields)

lemma riskScore_initialInputs: "riskScore initialInputs = 57.9"
  by (simp add: riskScore_def Let_def clamp_default_def clamp_def initialInputs_fields)

lemma decisionScore_initialInputs: "decisionScore initialInputs = 58"
  by (simp add: decisionScore_def Let_def financialScore_initialInputs
        utilityScore_initialInputs riskScore_initialInputs clamp_default_def clamp_def
        Math_round_def initialInputs_fields)

lemma scoreFor_initialInputs_best: "scoreFor initialInputs 565 (205 / 2) = 55"
  by (simp add: scoreFor_def Let_def riskScore_initialInputs clamp_default_def clamp_def
        Math_round_def initialInputs_fields)

lemma scoreFor_initialInputs_none: "scoreFor initialInputs 565 0 = 54"
  by (simp add: scoreFor_def Let_def riskScore_initialInputs clamp_default_def clamp_def
        Math_round_def initialInputs_fields)

subsection \<open>Resale offset and effective cost\<close>

lemma resaleOffset_nonneg: "0 \<le> resaleOffset i"
  by (simp add: resaleOffset_def Let_def)



text \<open>
  When the deductions exceed the gross expected resale value, the offset is exactly 0
  and the effective cost is the sticker cost floored at 0.
\<close>

lemma resaleOffset_zero_when_costs_exceed_gross:
  assumes "adjSalePrice i * (adjSaleProb i / 100)
             \<le> platformFees i + shipCost i + adjTimeHours i * hourlyValue i + friction i"
  shows "resaleOffset i = 0" and "effectiveCost i = max 0 (stickerCost i)"
proof -
  show r: "resaleOffset i = 0"
    using assms by (simp add: resaleOffset_def Let_def)
  show "effectiveCost i = max 0 (stickerCost i)"
    by (simp add: effectiveCost_def r)
qed




text \<open>A negative sticker cost is the only way to break the inequality.\<close>

lemma effectiveCost_le_stickerCost_iff:
  "effectiveCost i \<le> stickerCost i \<longleftrightarrow> 0 \<le> stickerCost i"
  using resaleOffset_nonneg [of i] by (auto simp add: effectiveCost_def)



text \<open>
  Claim C8. With price 500, tax rate 13, expected sale price 250, sale probability 80,
  condition "like_new", demand "medium", platform fees 25, shipping 20, 2 hours at 40
  per hour and friction 10, the sticker cost is 565, the adjusted probability 84, the
  adjusted sale price 237.5, the adjusted hours 2, and the resale offset is
  \<open>max 0 (237.5 * 0.84 - 25 - 20 - 2 * 40 - 10)\<close>, which is 64.5. The equalities are
  exact, in the exact arithmetic of the model.
\<close>

theorem concrete_scenario:
  assumes "price i = 500" and "taxRatePct i = 13" and "expectSalePrice i = 250"
    and "saleProbabilityPct i = 80" and "condKey i = ''like_new''"
    and "demandKey i = ''medium''" and "platformFees i = 25" and "shipCost i = 20"
    and "timeHours i = 2" and "hourlyValue i = 40" and "friction i = 10"
  shows "stickerCost i = 565.00 \<and> adjSaleProb i = 84 \<and> adjSalePrice i = 237.5 \<and>
         adjTimeHours i = 2 \<and>
         resaleOffset i = max 0 (237.5 * 0.84 - 25 - 20 - 2 * 40 - 10) \<and>
         resaleOffset i = 64.5"
proof -
  have c: "cond i = CONDITION_PRESETS ! 1"
    using assms(5) by (simp add: cond_def CONDITION_PRESETS_def)
  have d: "demand i = DEMAND_PRESETS ! 1"
    using assms(6) by (simp add: demand_def DEMAND_PRESETS_def)
  have s: "stickerCost i = 565"
    using assms(1,2) by (simp add: stickerCost_def taxFor_def)
  have p: "adjSaleProb i = 84"
    using assms(4)
    by (simp add: adjSaleProb_def c d CONDITION_PRESETS_def DEMAND_PRESETS_def clamp_def)
  have a: "adjSalePrice i = 237.5"
    using assms(3) by (simp add: adjSalePrice_def c CONDITION_PRESETS_def)
  have h: "adjTimeHours i = 2"
    using assms(9) by (simp add: adjTimeHours_def d DEMAND_PRESETS_def)
  have r: "resaleOffset i = 64.5"
    using assms(7,8,10,11) by (simp add: resaleOffset_def Let_def p a h)
  show ?thesis using s p a h r by simp
qed

theorem concrete_scenario_witness:
  "stickerCost initialInputs = 565.00 \<and> adjSaleProb initialInputs = 84 \<and>
   adjSalePrice initialInputs = 237.5 \<and> adjTimeHours initialInputs = 2 \<and>
   resaleOffset initialInputs = max 0 (237.5 * 0.84 - 25 - 20 - 2 * 40 - 10) \<and>
   resaleOffset initialInputs = 64.5"
  using concrete_scenario [of initialInputs]
  by (simp add: initialInputs_fields)

subsection \<open>Monotonicity of the sub-scores\<close>

text \<open>
  Claim C6. With every other field fixed, a larger budget impact never gives a larger
  financial score; and, when the old item is kept, a larger minimalism strength never
  gives a larger risk score.
\<close>

theorem budget_and_minimalism_monotone:
  "(b \<le> b' \<longrightarrow>
      financialScore (i\<lparr>budgetImpact := b'\<rparr>) \<le> financialScore (i\<lparr>budgetImpact := b\<rparr>)) \<and>
   (keepOldItem i \<and> m \<le> m' \<longrightarrow>
      riskScore (i\<lparr>minimalismStrength := m'\<rparr>) \<le> riskScore (i\<lparr>minimalismStrength := m\<rparr>))"
proof (intro conjI impI)
  assume le: "b \<le> b'"
  have "clamp_default (100 - b' * 10) \<le> clamp_default (100 - b * 10)"
    using le by (intro clamp_default_mono) simp
  then show "financialScore (i\<lparr>budgetImpact := b'\<rparr>) \<le> financialScore (i\<lparr>budgetImpact := b\<rparr>)"
    unfolding financialScore_def Let_def
    by (intro clamp_default_mono)
       (simp add: costPerUse_def effectiveCost_def totalExpectedUses_def resaleOffset_def
          stickerCost_def taxFor_def adjSaleProb_def adjSalePrice_def adjTimeHours_def
          cond_def demand_def)
next
  assume "keepOldItem i \<and> m \<le> m'"
  then show "riskScore (i\<lparr>minimalismStrength := m'\<rparr>) \<le> riskScore (i\<lparr>minimalismStrength := m\<rparr>)"
    unfolding riskScore_def Let_def
    by (intro clamp_default_mono) simp
qed

theorem budget_and_minimalism_monotone_witness:
  "(5::real) \<le> 6 \<and>
   financialScore (initialInputs\<lparr>keepOldItem := True, budgetImpact := 6\<rparr>)
     \<le> financialScore (initialInputs\<lparr>keepOldItem := True, budgetImpact := 5\<rparr>) \<and>
   keepOldItem (initialInputs\<lparr>keepOldItem := True\<rparr>) \<and> (6::real) \<le> 7 \<and>
   riskScore (initialInputs\<lparr>keepOldItem := True, minimalismStrength := 7\<rparr>)
     \<le> riskScore (initialInputs\<lparr>keepOldItem := True, minimalismStrength := 6\<rparr>)"
  using budget_and_minimalism_monotone [of 5 6 "initialInputs\<lparr>keepOldItem := True\<rparr>" 6 7]
  by simp

subsection \<open>Sensitivity\<close>

text \<open>
  The callback of \<open>sensitivity\<close>: its wait-for-sale score is present exactly when
  \<open>simulateWait\<close> is set, and is then \<open>scoreFor\<close> at the discounted sticker cost and
  the resale offset of the same render. The discounted sticker cost is the sticker cost of
  the price after the discount, and the resale offset does not depend on the price.
\<close>

lemma sensitivity_callback_waitSale:
  "waitSale (sensitivity i) =
     (if simulateWait i then Some (scoreFor i (stickerCostWait i) (resaleOffset i)) else None) \<and>
   (waitSale (sensitivity i) = None) = (\<not> simulateWait i) \<and>
   stickerCostWait i = stickerCost (i\<lparr>price := price i * (1 - targetDiscountPct i / 100)\<rparr>) \<and>
   resaleOffset (i\<lparr>price := price i * (1 - targetDiscountPct i / 100)\<rparr>) = resaleOffset i"
  by (simp add: sensitivity_def stickerCostWait_def stickerCost_def taxFor_def Let_def
        resaleOffset_def adjSaleProb_def adjSalePrice_def adjTimeHours_def cond_def demand_def)

text \<open>
  In exact arithmetic \<open>scoreFor\<close> grows with the offset when the financial and utility
  weights are not negative, and at the live sticker cost and offset it is at most the
  decision score: its financial part is that of \<open>financialScore\<close> without the per-use
  bonus. (The three lemmas below are statements of the exact model only: in doubles the
  two formulas associate their products differently, and a score next to a rounding tie
  can fall on the other side.)
\<close>

lemma scoreFor_mono_offset:
  assumes wf: "0 \<le> wFinancial i" and wu: "0 \<le> wUtility i" and le: "o1 \<le> o2"
  shows "scoreFor i s o1 \<le> scoreFor i s o2"
proof -
  have e: "max 0 (s - o2) / max 1 (price i) \<le> max 0 (s - o1) / max 1 (price i)"
    using le by (intro divide_right_mono) simp_all
  have q: "o1 / max 1 s \<le> o2 / max 1 s"
    using le by (intro divide_right_mono) simp_all
  have pd: "clamp_default (100 - max 0 (s - o1) / max 1 (price i) * 50)
              \<le> clamp_default (100 - max 0 (s - o2) / max 1 (price i) * 50)"
    using e by (intro clamp_default_mono diff_left_mono mult_right_mono) simp_all
  have "clamp_default (o1 / max 1 s * 100) \<le> clamp_default (o2 / max 1 s * 100)"
    using q by (intro clamp_default_mono mult_right_mono) simp_all
  then have rb: "(if resaleAggressive i then clamp_default (o1 / max 1 s * 100) * 0.2 else 0)
              \<le> (if resaleAggressive i then clamp_default (o2 / max 1 s * 100) * 0.2 else 0)"
    by simp
  have "o1 / max 1 s * 50 \<le> o2 / max 1 s * 50"
    using q by (rule mult_right_mono) simp
  then have "min 10 (o1 / max 1 s * 50) \<le> min 10 (o2 / max 1 s * 50)"
    by (rule min.mono [OF order_refl])
  then have ua: "(if resaleAggressive i then min 10 (o1 / max 1 s * 50) else 0)
              \<le> (if resaleAggressive i then min 10 (o2 / max 1 s * 50) else (0::real))"
    by simp
  show ?thesis
    unfolding scoreFor_def Let_def
    by (intro Math_round_mono clamp_default_mono add_mono mult_left_mono wf wu pd rb ua
          order_refl) simp_all
qed

lemma scoreFor_live_le_decisionScore:
  assumes wf: "0 \<le> wFinancial i"
  shows "scoreFor i (stickerCost i) (resaleOffset i) \<le> decisionScore i"
proof -
  let ?base = "0.43 * clamp_default (100 - budgetImpact i * 10)
      + 0.32 * clamp_default (useFrequency i * 8 + longevity i * 4)
      + 0.2 * clamp_default (100 - (effectiveCost i / max 1 (price i)) * 50)
      + (if resaleAggressive i
         then clamp_default ((resaleOffset i / max 1 (stickerCost i)) * 100) * 0.2 else 0)"
  let ?cpu = "if costPerUse i < 1 then 8 else if costPerUse i < (3::real) then 5 else (0::real)"
  let ?util = "clamp_default (0.4 * needLevel i * 10 + 0.35 * useFrequency i * 8
      + 0.25 * joyScore i * 10 + (if workRelated i then 10 else 0)
      + (if resaleAggressive i
         then min 10 ((resaleOffset i / max 1 (stickerCost i)) * 50) else 0))"
  have f: "financialScore i = clamp_default (?base + ?cpu)"
    by (simp add: financialScore_def Let_def)
  have u: "utilityScore i = ?util"
    by (simp add: utilityScore_def Let_def)
  have s: "scoreFor i (stickerCost i) (resaleOffset i) =
      Math_round (clamp_default (wFinancial i * clamp_default ?base + wUtility i * ?util
        + wRisk i * riskScore i))"
    by (simp add: scoreFor_def Let_def effectiveCost_def)
  have "?base \<le> ?base + ?cpu" by simp
  then have "clamp_default ?base \<le> financialScore i"
    unfolding f by (rule clamp_default_mono)
  then have "wFinancial i * clamp_default ?base \<le> wFinancial i * financialScore i"
    using wf by (rule mult_left_mono)
  then have "wFinancial i * clamp_default ?base + wUtility i * ?util + wRisk i * riskScore i
      \<le> wFinancial i * financialScore i + wUtility i * utilityScore i + wRisk i * riskScore i"
    unfolding u by linarith
  then show ?thesis
    unfolding s decisionScore_def Let_def
    by (intro Math_round_mono clamp_default_mono)
qed

text \<open>
  So in exact arithmetic the lower half of the ordering holds for weights that are not
  negative: the no-resale score of the callback is at most its current score and at most
  its best-resale score.
\<close>

lemma noResale_le_current_and_bestResale:
  assumes "0 \<le> wFinancial i" and "0 \<le> wUtility i"
  shows "noResale (sensitivity i) \<le> current (sensitivity i)"
    and "noResale (sensitivity i) \<le> bestResale (sensitivity i)"
proof -
  have "scoreFor i (stickerCost i) 0 \<le> scoreFor i (stickerCost i) (resaleOffset i)"
    using assms by (intro scoreFor_mono_offset) (simp_all add: resaleOffset_def Let_def)
  also have "\<dots> \<le> decisionScore i"
    using assms(1) by (rule scoreFor_live_le_decisionScore)
  finally show "noResale (sensitivity i) \<le> current (sensitivity i)"
    by (simp add: sensitivity_def)
  have "scoreFor i (stickerCost i) 0 \<le> scoreFor i (stickerCost i) (bestOffset i)"
    using assms by (intro scoreFor_mono_offset) (simp_all add: bestOffset_def)
  then show "noResale (sensitivity i) \<le> bestResale (sensitivity i)"
    by (simp add: sensitivity_def)
qed

text \<open>
  Claim C3 says that the best-resale score is at least the current score, which is at
  least the no-resale score, whenever the live offset lies between 0 and the best-case
  offset. At the initial form state the live offset 64.5 lies between 0 and the best-case
  offset 102.5, yet the best-resale score is 55 and the current score is 58: the current
  score is computed by \<open>financialScore\<close>, which adds the per-use bonus (8 here, the cost
  per use being below 1), and \<open>scoreFor\<close>, which repeats the same formula for the
  scenarios, leaves that bonus out.
\<close>

theorem bestResale_below_current_initialInputs:
  "resaleOffset initialInputs = 64.5 \<and> bestOffset initialInputs = 102.5 \<and>
   sensitivity initialInputs =
     \<lparr>current = 58, noResale = 54, bestResale = 55, waitSale = None\<rparr> \<and>
   bestResale (sensitivity initialInputs) < current (sensitivity initialInputs)"
  by (simp add: sensitivity_def resaleOffset_initialInputs bestOffset_initialInputs
        stickerCost_initialInputs decisionScore_initialInputs scoreFor_initialInputs_best
        scoreFor_initialInputs_none)
     (simp add: initialInputs_fields)

section \<open>The memo cell of \<open>sensitivity\<close>\<close>

text \<open>
  After any sequence of renders the cell holds the dependency values of the last render
  and the result of the callback at some earlier render with the same dependency values.
  So the presence of the wait-for-sale score always follows \<open>simulateWait\<close>, and its
  sticker cost and resale offset are those of the last render; what \<open>scoreFor\<close> reads
  beyond the dependency array is taken from the earlier render.
\<close>

lemma shownSensitivity_first_render: "shownSensitivity [i] = Some (sensitivity i)"
  by (simp add: shownSensitivity_def sensitivityMemo_def useMemo_def)

lemma sensitivityMemo_fresh:
  assumes "cell = None \<or> (\<exists>j. cell = Some (sensitivityDeps j, sensitivity j))"
  shows "\<exists>j. sensitivityMemo cell i = (sensitivityDeps j, sensitivity j)
              \<and> sensitivityDeps j = sensitivityDeps i"
proof (cases cell)
  case None
  then have "sensitivityMemo cell i = (sensitivityDeps i, sensitivity i)"
    by (simp add: sensitivityMemo_def useMemo_def)
  then show ?thesis by blast
next
  case (Some p)
  then obtain j where c: "cell = Some (sensitivityDeps j, sensitivity j)"
    using assms by auto
  show ?thesis
  proof (cases "sensitivityDeps j = sensitivityDeps i")
    case True
    then have "sensitivityMemo cell i = (sensitivityDeps j, sensitivity j)"
      by (simp add: sensitivityMemo_def useMemo_def c)
    then show ?thesis using True by blast
  next
    case False
    then have "sensitivityMemo cell i = (sensitivityDeps i, sensitivity i)"
      by (simp add: sensitivityMemo_def useMemo_def c)
    then show ?thesis by blast
  qed
qed

lemma renders_cell:
  assumes "cell = None \<or> (\<exists>j. cell = Some (sensitivityDeps j, sensitivity j))"
    and "states \<noteq> []"
  shows "\<exists>j. renders cell states = Some (sensitivityDeps j, sensitivity j)
              \<and> sensitivityDeps j = sensitivityDeps (last states)"
  using assms
proof (induction states arbitrary: cell)
  case Nil
  then show ?case by simp
next
  case (Cons i rest)
  obtain j where j: "sensitivityMemo cell i = (sensitivityDeps j, sensitivity j)"
    and d: "sensitivityDeps j = sensitivityDeps i"
    using sensitivityMemo_fresh [OF Cons.prems(1)] by blast
  show ?case
  proof (cases "rest = []")
    case True
    have "renders cell (i # rest) = Some (sensitivityDeps j, sensitivity j)"
      using True j by simp
    moreover have "sensitivityDeps j = sensitivityDeps (last (i # rest))"
      using True d by simp
    ultimately show ?thesis by blast
  next
    case False
    have "Some (sensitivityMemo cell i) = None
        \<or> (\<exists>k. Some (sensitivityMemo cell i) = Some (sensitivityDeps k, sensitivity k))"
      using j by blast
    then have "\<exists>k. renders (Some (sensitivityMemo cell i)) rest
                 = Some (sensitivityDeps k, sensitivity k)
               \<and> sensitivityDeps k = sensitivityDeps (last rest)"
      using False by (rule Cons.IH)
    then show ?thesis using False by simp
  qed
qed

lemma shownSensitivity_waitSale:
  assumes "states \<noteq> []"
  shows "\<exists>j. shownSensitivity states = Some (sensitivity j)
            \<and> sensitivityDeps j = sensitivityDeps (last states)
            \<and> waitSale (sensitivity j) =
                (if simulateWait (last states)
                 then Some (scoreFor j (stickerCostWait (last states)) (resaleOffset (last states)))
                 else None)"
proof -
  obtain j where r: "renders None states = Some (sensitivityDeps j, sensitivity j)"
    and d: "sensitivityDeps j = sensitivityDeps (last states)"
    using renders_cell [of None states] assms by blast
  have "simulateWait j = simulateWait (last states)"
    and "stickerCostWait j = stickerCostWait (last states)"
    and "resaleOffset j = resaleOffset (last states)"
    using d by (simp_all add: sensitivityDeps_def)
  then have "waitSale (sensitivity j) =
      (if simulateWait (last states)
       then Some (scoreFor j (stickerCostWait (last states)) (resaleOffset (last states)))
       else None)"
    by (simp add: sensitivity_def)
  then show ?thesis using r d by (auto simp add: shownSensitivity_def)
qed

lemma shownSensitivity_waitSale_present:
  assumes "states \<noteq> []" and "shownSensitivity states = Some s"
  shows "(waitSale s = None) = (\<not> simulateWait (last states))"
  using shownSensitivity_waitSale [OF assms(1)] assms(2) by (auto split: if_splits)

subsection \<open>The session with the wait-for-sale scenario, evaluated\<close>

lemma waitA_fields:
  "price waitA = 500" "taxRatePct waitA = 13" "budgetImpact waitA = 5" "needLevel waitA = 4"
  "useFrequency waitA = 7" "joyScore waitA = 6" "longevity waitA = 6"
  "workRelated waitA = False" "resaleAggressive waitA = False" "simulateWait waitA = True"
  "targetDiscountPct waitA = 40" "wFinancial waitA = 0.45" "wUtility waitA = 0.4"
  "wRisk waitA = 0.15"
  by (simp_all add: waitA_def initialInputs_fields)

lemma waitB_fields:
  "price waitB = 500" "taxRatePct waitB = 13" "budgetImpact waitB = 5" "needLevel waitB = 4"
  "useFrequency waitB = 7" "joyScore waitB = 6" "longevity waitB = 5"
  "workRelated waitB = False" "resaleAggressive waitB = False" "simulateWait waitB = True"
  "targetDiscountPct waitB = 40" "wFinancial waitB = 0.45" "wUtility waitB = 0.4"
  "wRisk waitB = 0.15"
  by (simp_all add: waitB_def waitA_fields)

lemma cond_cong: "condKey i = condKey j \<Longrightarrow> cond i = cond j"
  by (simp only: cond_def)

lemma demand_cong: "demandKey i = demandKey j \<Longrightarrow> demand i = demand j"
  by (simp only: demand_def)

lemma wait_presets:
  "cond waitA = cond initialInputs" "cond waitB = cond initialInputs"
  "demand waitA = demand initialInputs" "demand waitB = demand initialInputs"
  by (rule cond_cong demand_cong, simp add: waitA_def waitB_def)+

lemma waitA_same:
  "price waitA = price initialInputs" "taxRatePct waitA = taxRatePct initialInputs"
  "budgetImpact waitA = budgetImpact initialInputs" "needLevel waitA = needLevel initialInputs"
  "useFrequency waitA = useFrequency initialInputs" "joyScore waitA = joyScore initialInputs"
  "longevity waitA = longevity initialInputs" "workRelated waitA = workRelated initialInputs"
  "expectSalePrice waitA = expectSalePrice initialInputs" "saleProbabilityPct waitA = saleProbabilityPct initialInputs"
  "platformFees waitA = platformFees initialInputs" "shipCost waitA = shipCost initialInputs"
  "timeHours waitA = timeHours initialInputs" "hourlyValue waitA = hourlyValue initialInputs"
  "friction waitA = friction initialInputs" "resaleAggressive waitA = resaleAggressive initialInputs"
  "condKey waitA = condKey initialInputs" "demandKey waitA = demandKey initialInputs"
  "monthsToWait waitA = monthsToWait initialInputs" "monthsOwn waitA = monthsOwn initialInputs"
  "usesPerWeek waitA = usesPerWeek initialInputs" "keepOldItem waitA = keepOldItem initialInputs"
  "minimalismStrength waitA = minimalismStrength initialInputs" "returnPolicy waitA = returnPolicy initialInputs"
  "warranty waitA = warranty initialInputs" "spaceFit waitA = spaceFit initialInputs"
  "altAvailable waitA = altAvailable initialInputs" "urgency waitA = urgency initialInputs"
  "wFinancial waitA = wFinancial initialInputs" "wUtility waitA = wUtility initialInputs"
  "wRisk waitA = wRisk initialInputs"
  by (simp_all add: waitA_def)

lemma waitB_same:
  "price waitB = price waitA" "taxRatePct waitB = taxRatePct waitA"
  "budgetImpact waitB = budgetImpact waitA" "needLevel waitB = needLevel waitA"
  "useFrequency waitB = useFrequency waitA" "joyScore waitB = joyScore waitA"
  "workRelated waitB = workRelated waitA" "expectSalePrice waitB = expectSalePrice waitA"
  "saleProbabilityPct waitB = saleProbabilityPct waitA" "platformFees waitB = platformFees waitA"
  "shipCost waitB = shipCost waitA" "timeHours waitB = timeHours waitA"
  "hourlyValue waitB = hourlyValue waitA" "friction waitB = friction waitA"
  "resaleAggressive waitB = resaleAggressive waitA" "condKey waitB = condKey waitA"
  "demandKey waitB = demandKey waitA" "simulateWait waitB = simulateWait waitA"
  "targetDiscountPct waitB = targetDiscountPct waitA" "monthsToWait waitB = monthsToWait waitA"
  "monthsOwn waitB = monthsOwn waitA" "usesPerWeek waitB = usesPerWeek waitA"
  "keepOldItem waitB = keepOldItem waitA" "minimalismStrength waitB = minimalismStrength waitA"
  "returnPolicy waitB = returnPolicy waitA" "warranty waitB = warranty waitA"
  "spaceFit waitB = spaceFit waitA" "altAvailable waitB = altAvailable waitA"
  "urgency waitB = urgency waitA" "wFinancial waitB = wFinancial waitA"
  "wUtility waitB = wUtility waitA" "wRisk waitB = wRisk waitA"
  by (simp_all add: waitB_def)

lemma wait_unchanged:
  "stickerCost waitA = stickerCost initialInputs" "stickerCost waitB = stickerCost initialInputs"
  "resaleOffset waitA = resaleOffset initialInputs"
  "resaleOffset waitB = resaleOffset initialInputs"
  "bestOffset waitB = bestOffset waitA"
  "costPerUse waitA = costPerUse initialInputs" "costPerUse waitB = costPerUse initialInputs"
  "effectiveCost waitA = effectiveCost initialInputs"
  "effectiveCost waitB = effectiveCost initialInputs"
  "utilityScore waitA = utilityScore initialInputs"
  "utilityScore waitB = utilityScore initialInputs"
  "riskScore waitA = riskScore initialInputs" "riskScore waitB = riskScore initialInputs"
  "financialScore waitA = financialScore initialInputs"
  by (simp_all only: Let_def stickerCost_def taxFor_def resaleOffset_def
        bestOffset_def costPerUse_def effectiveCost_def totalExpectedUses_def utilityScore_def
        riskScore_def financialScore_def adjSaleProb_def adjSalePrice_def adjTimeHours_def
        wait_presets waitA_same waitB_same)

lemma stickerCostWait_wait: "stickerCostWait waitA = 339" "stickerCostWait waitB = 339"
  by (simp_all add: stickerCostWait_def taxFor_def Let_def waitA_fields waitB_fields)

lemma decisionScore_waitA: "decisionScore waitA = 58"
  using decisionScore_initialInputs
  by (simp add: decisionScore_def wait_unchanged waitA_fields initialInputs_fields)

lemma financialScore_waitB: "financialScore waitB = 63.81"
  by (simp add: financialScore_def Let_def wait_unchanged costPerUse_initialInputs
        effectiveCost_initialInputs clamp_default_def clamp_def waitB_fields)

lemma decisionScore_waitB: "decisionScore waitB = 58"
  by (simp add: decisionScore_def Let_def financialScore_waitB wait_unchanged
        utilityScore_initialInputs riskScore_initialInputs clamp_default_def clamp_def
        Math_round_def waitB_fields)

lemma sensitivityDeps_waitB: "sensitivityDeps waitB = sensitivityDeps waitA"
  by (simp add: sensitivityDeps_def decisionScore_waitA decisionScore_waitB wait_unchanged
        stickerCostWait_wait waitA_fields waitB_fields)

lemma sensitivityDeps_toggle:
  "sensitivityDeps (initialInputs\<lparr>simulateWait := True\<rparr>) \<noteq> sensitivityDeps initialInputs"
  by (simp add: sensitivityDeps_def initialInputs_fields)

lemma sensitivityDeps_discount:
  "sensitivityDeps waitA \<noteq> sensitivityDeps (initialInputs\<lparr>simulateWait := True\<rparr>)"
  by (simp add: sensitivityDeps_def stickerCostWait_wait)
     (simp add: stickerCostWait_def taxFor_def Let_def initialInputs_fields)

lemma shownSensitivity_waitSession: "shownSensitivity waitSession = Some (sensitivity waitA)"
proof -
  let ?on = "initialInputs\<lparr>simulateWait := True\<rparr>"
  have 1: "sensitivityMemo None initialInputs
      = (sensitivityDeps initialInputs, sensitivity initialInputs)"
    by (simp add: sensitivityMemo_def useMemo_def)
  have 2: "sensitivityMemo (Some (sensitivityDeps initialInputs, sensitivity initialInputs)) ?on
      = (sensitivityDeps ?on, sensitivity ?on)"
    using sensitivityDeps_toggle by (auto simp add: sensitivityMemo_def useMemo_def)
  have 3: "sensitivityMemo (Some (sensitivityDeps ?on, sensitivity ?on)) waitA
      = (sensitivityDeps waitA, sensitivity waitA)"
    using sensitivityDeps_discount by (auto simp add: sensitivityMemo_def useMemo_def)
  have 4: "sensitivityMemo (Some (sensitivityDeps waitA, sensitivity waitA)) waitB
      = (sensitivityDeps waitA, sensitivity waitA)"
    using sensitivityDeps_waitB by (simp add: sensitivityMemo_def useMemo_def)
  show ?thesis
    by (simp add: shownSensitivity_def waitSession_def 1 2 3 4)
qed

lemma scoreFor_waitA: "scoreFor waitA 339 (129 / 2) = 57"
  by (simp add: scoreFor_def Let_def wait_unchanged riskScore_initialInputs clamp_default_def
        clamp_def Math_round_def waitA_fields)

lemma scoreFor_waitB: "scoreFor waitB 339 (129 / 2) = 56"
  by (simp add: scoreFor_def Let_def wait_unchanged riskScore_initialInputs clamp_default_def
        clamp_def Math_round_def waitB_fields)

text \<open>
  Claim C7 says that the wait-for-sale score is present exactly when \<open>simulateWait\<close> is
  set and then equals \<open>scoreFor\<close> at the discounted sticker cost and the live resale
  offset. In the session \<open>waitSession\<close> the last render has \<open>simulateWait\<close> set, and moving
  longevity from 6 to 5 leaves all six dependency values equal (the decision score is 58
  before and after), so the memo returns the stored record: the shown wait-for-sale score
  is 57, while \<open>scoreFor\<close> at the discounted sticker cost 339 and the live offset 64.5 is
  56 in that render. The dependency array omits values that \<open>scoreFor\<close> reads.
\<close>

theorem waitSale_stale_in_waitSession:
  "last waitSession = waitB \<and> simulateWait waitB \<and>
   map_option waitSale (shownSensitivity waitSession) = Some (Some 57) \<and>
   scoreFor waitB (stickerCostWait waitB) (resaleOffset waitB) = 56"
  by (simp add: shownSensitivity_waitSession sensitivity_def stickerCostWait_wait
        wait_unchanged resaleOffset_initialInputs scoreFor_waitA scoreFor_waitB waitB_fields
        waitA_fields)
     (simp add: waitSession_def)

section \<open>Scores on numbers with overflow\<close>

subsection \<open>Results that stay finite\<close>

lemma boundedBy_Fin: "boundedBy b (Fin r) = (\<bar>r\<bar> \<le> b)"
  by (simp add: boundedBy_def)

lemma boundedByD: "boundedBy b x \<Longrightarrow> \<exists>r. x = Fin r \<and> \<bar>r\<bar> \<le> b"
  by (cases x) (simp_all add: boundedBy_def)

lemma pow10_mono: "m \<le> n \<Longrightarrow> (10::real) ^ m \<le> 10 ^ n"
  by (rule power_increasing) simp_all

lemma pow10_safe:
  assumes "n \<le> 300"
  shows "(10::real) ^ n < overflowBound"
proof -
  have "(10::real) ^ n \<le> 10 ^ 300" using assms by (rule pow10_mono)
  also have "(10::real) ^ 300 < overflowBound" by (simp add: overflowBound_def)
  finally show ?thesis .
qed

lemma fromReal_Fin:
  assumes "\<bar>r\<bar> \<le> 10 ^ n" and "n \<le> 300"
  shows "fromReal r = Fin r"
  using assms(1) pow10_safe [OF assms(2)] by (simp add: fromReal_def abs_le_iff)

lemma pow10_sum:
  assumes "m < k" and "n < k"
  shows "(10::real) ^ m + 10 ^ n \<le> 10 ^ k"
proof -
  obtain j where k: "k = Suc j" using assms(1) by (cases k) simp_all
  have "(10::real) ^ m \<le> 10 ^ j" and "(10::real) ^ n \<le> 10 ^ j"
    using assms k by (simp_all add: pow10_mono)
  then have "(10::real) ^ m + 10 ^ n \<le> 2 * 10 ^ j" by linarith
  also have "\<dots> \<le> 10 ^ k" by (simp add: k)
  finally show ?thesis .
qed

lemma boundedBy_add:
  assumes "boundedBy (10 ^ m) x" and "boundedBy (10 ^ n) y" and "m < k" and "n < k"
    and "k \<le> 300"
  shows "boundedBy (10 ^ k) (x + y)"
proof -
  obtain r s where x: "x = Fin r" "\<bar>r\<bar> \<le> 10 ^ m" and y: "y = Fin s" "\<bar>s\<bar> \<le> 10 ^ n"
    using assms(1,2) by (blast dest: boundedByD)
  have "\<bar>r + s\<bar> \<le> 10 ^ k"
    using x(2) y(2) pow10_sum [OF assms(3,4)] by linarith
  then show ?thesis
    using fromReal_Fin [OF _ assms(5), of "r + s"] by (simp add: x(1) y(1) boundedBy_Fin)
qed

lemma boundedBy_sub:
  assumes "boundedBy (10 ^ m) x" and "boundedBy (10 ^ n) y" and "m < k" and "n < k"
    and "k \<le> 300"
  shows "boundedBy (10 ^ k) (x - y)"
proof -
  obtain r s where x: "x = Fin r" "\<bar>r\<bar> \<le> 10 ^ m" and y: "y = Fin s" "\<bar>s\<bar> \<le> 10 ^ n"
    using assms(1,2) by (blast dest: boundedByD)
  have "\<bar>r + - s\<bar> \<le> 10 ^ k"
    using x(2) y(2) pow10_sum [OF assms(3,4)] by linarith
  then show ?thesis
    using fromReal_Fin [OF _ assms(5), of "r + - s"]
    by (simp add: x(1) y(1) minus_number_def boundedBy_Fin)
qed

lemma boundedBy_mul:
  assumes "boundedBy (10 ^ m) x" and "boundedBy (10 ^ n) y" and "m + n \<le> k" and "k \<le> 300"
  shows "boundedBy (10 ^ k) (x * y)"
proof -
  obtain r s where x: "x = Fin r" "\<bar>r\<bar> \<le> 10 ^ m" and y: "y = Fin s" "\<bar>s\<bar> \<le> 10 ^ n"
    using assms(1,2) by (blast dest: boundedByD)
  have "\<bar>r\<bar> * \<bar>s\<bar> \<le> 10 ^ m * 10 ^ n"
    using x(2) y(2) by (intro mult_mono) simp_all
  also have "(10::real) ^ m * 10 ^ n = 10 ^ (m + n)" by (simp add: power_add)
  also have "(10::real) ^ (m + n) \<le> 10 ^ k" using assms(3) by (rule pow10_mono)
  finally have "\<bar>r * s\<bar> \<le> 10 ^ k" by (simp add: abs_mult)
  then show ?thesis
    using fromReal_Fin [OF _ assms(4), of "r * s"] by (simp add: x(1) y(1) boundedBy_Fin)
qed

lemma boundedBy_div_100:
  assumes "boundedBy (10 ^ m) x" and "m \<le> 300"
  shows "boundedBy (10 ^ m) (x / Fin 100)"
proof -
  obtain r where x: "x = Fin r" "\<bar>r\<bar> \<le> 10 ^ m"
    using assms(1) by (blast dest: boundedByD)
  have "\<bar>r\<bar> / 100 \<le> \<bar>r\<bar>" by simp
  then have "\<bar>r / 100\<bar> \<le> 10 ^ m" using x(2) by simp
  then show ?thesis
    using fromReal_Fin [OF _ assms(2), of "r / 100"] by (simp add: x(1) boundedBy_Fin)
qed

lemma boundedBy_div_max1:
  assumes "boundedBy (10 ^ m) x" and "boundedBy b z" and "m \<le> 300"
  shows "boundedBy (10 ^ m) (x / Math_max (Fin 1) z)"
proof -
  obtain r s where x: "x = Fin r" "\<bar>r\<bar> \<le> 10 ^ m" and z: "z = Fin s"
    using assms(1,2) by (blast dest: boundedByD)
  have "\<bar>r\<bar> / max 1 s \<le> \<bar>r\<bar> / 1"
    by (intro divide_left_mono) simp_all
  then have "\<bar>r / max 1 s\<bar> \<le> 10 ^ m" using x(2) by simp
  moreover have "max 1 s \<noteq> 0" by (simp add: max_def)
  ultimately show ?thesis
    using fromReal_Fin [OF _ assms(3), of "r / max 1 s"] by (simp add: x(1) z boundedBy_Fin)
qed

lemma boundedBy_max_const:
  assumes "boundedBy (10 ^ m) y" and "\<bar>c\<bar> \<le> 1"
  shows "boundedBy (10 ^ m) (Math_max (Fin c) y)"
proof -
  obtain s where y: "y = Fin s" "\<bar>s\<bar> \<le> 10 ^ m"
    using assms(1) by (blast dest: boundedByD)
  have "(1::real) \<le> 10 ^ m" by simp
  then have "\<bar>c\<bar> \<le> 10 ^ m" using assms(2) by linarith
  then have "\<bar>max c s\<bar> \<le> 10 ^ m" using y(2) by (simp add: max_def)
  then show ?thesis by (simp add: y(1) boundedBy_Fin)
qed

lemma boundedBy_min_const:
  assumes "boundedBy (10 ^ m) y" and "\<bar>c\<bar> \<le> 10" and "1 \<le> m"
  shows "boundedBy (10 ^ m) (Math_min (Fin c) y)"
proof -
  obtain s where y: "y = Fin s" "\<bar>s\<bar> \<le> 10 ^ m"
    using assms(1) by (blast dest: boundedByD)
  have "(10::real) ^ 1 \<le> 10 ^ m" using assms(3) by (rule pow10_mono)
  then have "\<bar>c\<bar> \<le> 10 ^ m" using assms(2) by simp
  then have "\<bar>min c s\<bar> \<le> 10 ^ m" using y(2) by (simp add: min_def)
  then show ?thesis by (simp add: y(1) boundedBy_Fin)
qed

lemma boundedBy_const:
  "\<bar>c\<bar> \<le> 1 \<Longrightarrow> boundedBy (10 ^ 0) (Fin c)" "\<bar>c\<bar> \<le> 10 \<Longrightarrow> boundedBy (10 ^ 1) (Fin c)"
  "\<bar>c\<bar> \<le> 100 \<Longrightarrow> boundedBy (10 ^ 2) (Fin c)"
  by (simp_all add: boundedBy_Fin)

lemma clamp_default_js_cases: "clamp_default_js v = NaN \<or> inRange (clamp_default_js v)"
  by (cases v) (simp_all add: clamp_default_js_def clamp_js_def inRange_def)

lemma clamp_default_js_NaN: "clamp_default_js v = NaN \<longleftrightarrow> v = NaN"
  by (cases v) (simp_all add: clamp_default_js_def clamp_js_def)

lemma inRange_clamp_default_js: "boundedBy b v \<Longrightarrow> inRange (clamp_default_js v)"
  using clamp_default_js_cases [of v] by (auto simp add: clamp_default_js_NaN boundedBy_def)

lemma boundedBy_clamp_js: "boundedBy b v \<Longrightarrow> boundedBy (10 ^ 2) (clamp_js v (Fin 0) (Fin 100))"
  by (cases v) (simp_all add: clamp_js_def boundedBy_def)

lemma boundedBy_clamp_default_js: "boundedBy b v \<Longrightarrow> boundedBy (10 ^ 2) (clamp_default_js v)"
  unfolding clamp_default_js_def by (rule boundedBy_clamp_js)

lemma boundedBy_inRange: "inRange x \<Longrightarrow> boundedBy (10 ^ 2) x"
  by (cases x) (simp_all add: inRange_def boundedBy_def)

lemma Math_round_js_inRange:
  assumes "inRange x"
  shows "inRange (Math_round_js x) \<and> isInteger (Math_round_js x)"
proof -
  obtain r where x: "x = Fin r" and r: "0 \<le> r" "r \<le> 100"
    using assms by (cases x) (simp_all add: inRange_def)
  have "0 \<le> \<lfloor>r + 1 / 2\<rfloor>" using r(1) by simp
  moreover have "\<lfloor>r + 1 / 2\<rfloor> \<le> 100" using r(2) by (simp add: floor_le_iff)
  ultimately show ?thesis
    by (simp add: x inRange_def isInteger_def Math_round_def)
qed

lemma Math_round_js_cases:
  "x = NaN \<or> inRange x \<Longrightarrow>
   Math_round_js x = NaN \<or> (inRange (Math_round_js x) \<and> isInteger (Math_round_js x))"
  using Math_round_js_inRange [of x] by auto

subsection \<open>No overflow in the costs when the fields are within \<open>10^100\<close>\<close>

lemma preset_bounds:
  "boundedBy (10 ^ 1) (Fin (ConditionPreset.probMult (cond i)))"
  "boundedBy (10 ^ 1) (Fin (priceMult (cond i)))"
  "boundedBy (10 ^ 1) (Fin (DemandPreset.probMult (demand i)))"
  "boundedBy (10 ^ 1) (Fin (timeHoursAdd (demand i)))"
  using cond_in_presets [of i] demand_in_presets [of i]
  by (auto simp add: CONDITION_PRESETS_def DEMAND_PRESETS_def boundedBy_Fin)

lemma field_bounds:
  assumes "fieldsWithin (10 ^ 100) i"
  shows "boundedBy (10 ^ 100) (Fin (price i))" "boundedBy (10 ^ 100) (Fin (taxRatePct i))"
    "boundedBy (10 ^ 100) (Fin (budgetImpact i))" "boundedBy (10 ^ 100) (Fin (needLevel i))"
    "boundedBy (10 ^ 100) (Fin (useFrequency i))" "boundedBy (10 ^ 100) (Fin (joyScore i))"
    "boundedBy (10 ^ 100) (Fin (longevity i))" "boundedBy (10 ^ 100) (Fin (expectSalePrice i))"
    "boundedBy (10 ^ 100) (Fin (saleProbabilityPct i))"
    "boundedBy (10 ^ 100) (Fin (platformFees i))" "boundedBy (10 ^ 100) (Fin (shipCost i))"
    "boundedBy (10 ^ 100) (Fin (timeHours i))" "boundedBy (10 ^ 100) (Fin (hourlyValue i))"
    "boundedBy (10 ^ 100) (Fin (friction i))" "boundedBy (10 ^ 100) (Fin (monthsOwn i))"
    "boundedBy (10 ^ 100) (Fin (usesPerWeek i))"
    "boundedBy (10 ^ 100) (Fin (minimalismStrength i))"
    "boundedBy (10 ^ 100) (Fin (returnPolicy i))" "boundedBy (10 ^ 100) (Fin (warranty i))"
    "boundedBy (10 ^ 100) (Fin (spaceFit i))" "boundedBy (10 ^ 100) (Fin (altAvailable i))"
    "boundedBy (10 ^ 100) (Fin (urgency i))" "boundedBy (10 ^ 100) (Fin (wFinancial i))"
    "boundedBy (10 ^ 100) (Fin (wUtility i))" "boundedBy (10 ^ 100) (Fin (wRisk i))"
  using assms unfolding fieldsWithin_def boundedBy_Fin by blast+

lemma stickerCost_js_bounded:
  assumes w: "fieldsWithin (10 ^ 100) i"
  shows "boundedBy (10 ^ 201) (stickerCost_js i)"
proof -
  note f = field_bounds [OF w]
  have "boundedBy (10 ^ 200) (Fin (price i) * Fin (taxRatePct i))"
    by (rule boundedBy_mul [OF f(1) f(2)]) simp_all
  then have "boundedBy (10 ^ 200) (taxFor_js i (Fin (price i)))"
    unfolding taxFor_js_def by (rule boundedBy_div_100) simp
  then show ?thesis
    unfolding stickerCost_js_def by (rule boundedBy_add [OF f(1)]) simp_all
qed

lemma adjSaleProb_js_bounded:
  assumes w: "fieldsWithin (10 ^ 100) i"
  shows "boundedBy (10 ^ 2) (adjSaleProb_js i)"
proof -
  note f = field_bounds [OF w]
  have "boundedBy (10 ^ 101)
      (Fin (saleProbabilityPct i) * Fin (ConditionPreset.probMult (cond i)))"
    by (rule boundedBy_mul [OF f(9) preset_bounds(1)]) simp_all
  then have "boundedBy (10 ^ 102)
      (Fin (saleProbabilityPct i) * Fin (ConditionPreset.probMult (cond i))
         * Fin (DemandPreset.probMult (demand i)))"
    by (rule boundedBy_mul [OF _ preset_bounds(3)]) simp_all
  then show ?thesis
    unfolding adjSaleProb_js_def by (rule boundedBy_clamp_js)
qed

lemma adjTimeHours_js_bounded:
  assumes w: "fieldsWithin (10 ^ 100) i"
  shows "boundedBy (10 ^ 101) (adjTimeHours_js i)"
proof -
  note f = field_bounds [OF w]
  have "boundedBy (10 ^ 101) (Fin (timeHours i) + Fin (timeHoursAdd (demand i)))"
    by (rule boundedBy_add [OF f(12) preset_bounds(4)]) simp_all
  then show ?thesis
    unfolding adjTimeHours_js_def by (rule boundedBy_max_const) simp
qed

lemma adjSalePrice_js_bounded:
  assumes w: "fieldsWithin (10 ^ 100) i"
  shows "boundedBy (10 ^ 101) (adjSalePrice_js i)"
proof -
  note f = field_bounds [OF w]
  show ?thesis
    unfolding adjSalePrice_js_def by (rule boundedBy_mul [OF f(8) preset_bounds(2)]) simp_all
qed

lemma resaleOffset_js_bounded:
  assumes w: "fieldsWithin (10 ^ 100) i"
  shows "boundedBy (10 ^ 203) (resaleOffset_js i)"
proof -
  note f = field_bounds [OF w]
  have prob: "boundedBy (10 ^ 2) (adjSaleProb_js i / Fin 100)"
    by (rule boundedBy_div_100 [OF adjSaleProb_js_bounded [OF w]]) simp
  have gross: "boundedBy (10 ^ 103) (adjSalePrice_js i * (adjSaleProb_js i / Fin 100))"
    by (rule boundedBy_mul [OF adjSalePrice_js_bounded [OF w] prob]) simp_all
  have timeCost: "boundedBy (10 ^ 201) (adjTimeHours_js i * Fin (hourlyValue i))"
    by (rule boundedBy_mul [OF adjTimeHours_js_bounded [OF w] f(13)]) simp_all
  have 1: "boundedBy (10 ^ 104)
      (adjSalePrice_js i * (adjSaleProb_js i / Fin 100) - Fin (platformFees i))"
    by (rule boundedBy_sub [OF gross f(10)]) simp_all
  have 2: "boundedBy (10 ^ 105)
      (adjSalePrice_js i * (adjSaleProb_js i / Fin 100) - Fin (platformFees i)
         - Fin (shipCost i))"
    by (rule boundedBy_sub [OF 1 f(11)]) simp_all
  have 3: "boundedBy (10 ^ 202)
      (adjSalePrice_js i * (adjSaleProb_js i / Fin 100) - Fin (platformFees i)
         - Fin (shipCost i) - adjTimeHours_js i * Fin (hourlyValue i))"
    by (rule boundedBy_sub [OF 2 timeCost]) simp_all
  have 4: "boundedBy (10 ^ 203)
      (adjSalePrice_js i * (adjSaleProb_js i / Fin 100) - Fin (platformFees i)
         - Fin (shipCost i) - adjTimeHours_js i * Fin (hourlyValue i) - Fin (friction i))"
    by (rule boundedBy_sub [OF 3 f(14)]) simp_all
  show ?thesis
    unfolding resaleOffset_js_def Let_def by (rule boundedBy_max_const [OF 4]) simp
qed

lemma effectiveCost_js_bounded:
  assumes w: "fieldsWithin (10 ^ 100) i"
  shows "boundedBy (10 ^ 204) (effectiveCost_js i)"
proof -
  have "boundedBy (10 ^ 204) (stickerCost_js i - resaleOffset_js i)"
    by (rule boundedBy_sub [OF stickerCost_js_bounded [OF w] resaleOffset_js_bounded [OF w]])
       simp_all
  then show ?thesis
    unfolding effectiveCost_js_def by (rule boundedBy_max_const) simp
qed

lemma costPerUse_js_bounded:
  assumes w: "fieldsWithin (10 ^ 100) i"
  shows "boundedBy (10 ^ 204) (costPerUse_js i)"
proof -
  note f = field_bounds [OF w]
  have k: "boundedBy (10 ^ 1) (Fin 4.33)" by (rule boundedBy_const) simp
  have "boundedBy (10 ^ 101) (Fin (usesPerWeek i) * Fin 4.33)"
    by (rule boundedBy_mul [OF f(16) k]) simp_all
  then have "boundedBy (10 ^ 201) (Fin (usesPerWeek i) * Fin 4.33 * Fin (monthsOwn i))"
    by (rule boundedBy_mul [OF _ f(15)]) simp_all
  then show ?thesis
    unfolding costPerUse_js_def totalExpectedUses_js_def
    by (rule boundedBy_div_max1 [OF effectiveCost_js_bounded [OF w]]) simp
qed

subsection \<open>No overflow in the scores\<close>

lemma boundedBy_weighted_clamp:
  assumes "boundedBy b v" and "\<bar>c\<bar> \<le> 1"
  shows "boundedBy (10 ^ 2) (Fin c * clamp_default_js v)"
  by (rule boundedBy_mul [OF boundedBy_const(1) [OF assms(2)]
        boundedBy_clamp_default_js [OF assms(1)]]) simp_all

lemma boundedBy_scaled:
  assumes "boundedBy (10 ^ 100) x" and "\<bar>c\<bar> \<le> 10"
  shows "boundedBy (10 ^ 101) (x * Fin c)"
  by (rule boundedBy_mul [OF assms(1) boundedBy_const(2) [OF assms(2)]]) simp_all

lemma financialScore_js_inRange:
  assumes w: "fieldsWithin (10 ^ 100) i"
  shows "inRange (financialScore_js i)"
proof -
  note f = field_bounds [OF w]
  have c100: "boundedBy (10 ^ 2) (Fin 100)" by (rule boundedBy_const) simp
  have "boundedBy (10 ^ 102) (Fin 100 - Fin (budgetImpact i) * Fin 10)"
    by (rule boundedBy_sub [OF c100 boundedBy_scaled [OF f(3)]]) simp_all
  then have aff: "boundedBy (10 ^ 2)
      (Fin 0.43 * clamp_default_js (Fin 100 - Fin (budgetImpact i) * Fin 10))"
    by (rule boundedBy_weighted_clamp) simp
  have "boundedBy (10 ^ 102) (Fin (useFrequency i) * Fin 8 + Fin (longevity i) * Fin 4)"
    by (rule boundedBy_add [OF boundedBy_scaled [OF f(5)] boundedBy_scaled [OF f(7)]])
       simp_all
  then have usage: "boundedBy (10 ^ 2)
      (Fin 0.32 * clamp_default_js (Fin (useFrequency i) * Fin 8 + Fin (longevity i) * Fin 4))"
    by (rule boundedBy_weighted_clamp) simp
  have "boundedBy (10 ^ 204) (effectiveCost_js i / Math_max (Fin 1) (Fin (price i)))"
    by (rule boundedBy_div_max1 [OF effectiveCost_js_bounded [OF w] f(1)]) simp
  then have "boundedBy (10 ^ 206)
      (effectiveCost_js i / Math_max (Fin 1) (Fin (price i)) * Fin 50)"
    by (rule boundedBy_mul [OF _ boundedBy_const(3)]) simp_all
  then have "boundedBy (10 ^ 207)
      (Fin 100 - effectiveCost_js i / Math_max (Fin 1) (Fin (price i)) * Fin 50)"
    by (rule boundedBy_sub [OF c100]) simp_all
  then have priceDrag: "boundedBy (10 ^ 2)
      (Fin 0.2 * clamp_default_js
         (Fin 100 - effectiveCost_js i / Math_max (Fin 1) (Fin (price i)) * Fin 50))"
    by (rule boundedBy_weighted_clamp) simp
  have "boundedBy (10 ^ 203) (resaleOffset_js i / Math_max (Fin 1) (stickerCost_js i))"
    by (rule boundedBy_div_max1 [OF resaleOffset_js_bounded [OF w] stickerCost_js_bounded [OF w]])
       simp
  then have "boundedBy (10 ^ 205)
      (resaleOffset_js i / Math_max (Fin 1) (stickerCost_js i) * Fin 100)"
    by (rule boundedBy_mul [OF _ c100]) simp_all
  then have "boundedBy (10 ^ 2)
      (clamp_default_js (resaleOffset_js i / Math_max (Fin 1) (stickerCost_js i) * Fin 100))"
    by (rule boundedBy_clamp_default_js)
  then have "boundedBy (10 ^ 2)
      (clamp_default_js (resaleOffset_js i / Math_max (Fin 1) (stickerCost_js i) * Fin 100)
         * Fin 0.2)"
    by (rule boundedBy_mul [OF _ boundedBy_const(1)]) simp_all
  then have resaleBonus: "boundedBy (10 ^ 2)
      (if resaleAggressive i
       then clamp_default_js
              (resaleOffset_js i / Math_max (Fin 1) (stickerCost_js i) * Fin 100) * Fin 0.2
       else Fin 0)"
    by (simp add: boundedBy_Fin)
  have cpuBonus: "boundedBy (10 ^ 2)
      (if lessThan_js (costPerUse_js i) (Fin 1) then Fin 8
       else if lessThan_js (costPerUse_js i) (Fin 3) then Fin 5 else Fin 0)"
    by (simp add: boundedBy_Fin)
  note s1 = boundedBy_add [OF aff usage, of 3]
  note s2 = boundedBy_add [OF s1 priceDrag, of 4]
  note s3 = boundedBy_add [OF s2 resaleBonus, of 5]
  note s4 = boundedBy_add [OF s3 cpuBonus, of 6]
  show ?thesis
    unfolding financialScore_js_def Let_def
    by (rule inRange_clamp_default_js, rule s4) simp_all
qed

lemma utilityScore_js_inRange:
  assumes w: "fieldsWithin (10 ^ 100) i"
  shows "inRange (utilityScore_js i)"
proof -
  note f = field_bounds [OF w]
  have k: "boundedBy (10 ^ 0) (Fin 0.4)" "boundedBy (10 ^ 0) (Fin 0.35)"
    "boundedBy (10 ^ 0) (Fin 0.25)"
    by (rule boundedBy_const, simp)+
  have need: "boundedBy (10 ^ 101) (Fin 0.4 * (Fin (needLevel i) * Fin 10))"
    by (rule boundedBy_mul [OF k(1) boundedBy_scaled [OF f(4)]]) simp_all
  have freq: "boundedBy (10 ^ 101) (Fin 0.35 * (Fin (useFrequency i) * Fin 8))"
    by (rule boundedBy_mul [OF k(2) boundedBy_scaled [OF f(5)]]) simp_all
  have joy: "boundedBy (10 ^ 101) (Fin 0.25 * (Fin (joyScore i) * Fin 10))"
    by (rule boundedBy_mul [OF k(3) boundedBy_scaled [OF f(6)]]) simp_all
  have work: "boundedBy (10 ^ 1) (if workRelated i then Fin 10 else Fin 0)"
    by (simp add: boundedBy_Fin)
  have "boundedBy (10 ^ 203) (resaleOffset_js i / Math_max (Fin 1) (stickerCost_js i))"
    by (rule boundedBy_div_max1 [OF resaleOffset_js_bounded [OF w] stickerCost_js_bounded [OF w]])
       simp
  then have "boundedBy (10 ^ 205)
      (resaleOffset_js i / Math_max (Fin 1) (stickerCost_js i) * Fin 50)"
    by (rule boundedBy_mul [OF _ boundedBy_const(3)]) simp_all
  then have "boundedBy (10 ^ 205)
      (Math_min (Fin 10) (resaleOffset_js i / Math_max (Fin 1) (stickerCost_js i) * Fin 50))"
    by (rule boundedBy_min_const) simp_all
  then have nudge: "boundedBy (10 ^ 205)
      (if resaleAggressive i
       then Math_min (Fin 10)
              (resaleOffset_js i / Math_max (Fin 1) (stickerCost_js i) * Fin 50)
       else Fin 0)"
    by (simp add: boundedBy_Fin)
  note s1 = boundedBy_add [OF need freq, of 102]
  note s2 = boundedBy_add [OF s1 joy, of 103]
  note s3 = boundedBy_add [OF s2 work, of 104]
  note s4 = boundedBy_add [OF s3 nudge, of 206]
  show ?thesis
    unfolding utilityScore_js_def Let_def
    by (rule inRange_clamp_default_js, rule s4) simp_all
qed

lemma riskScore_js_inRange:
  assumes w: "fieldsWithin (10 ^ 100) i"
  shows "inRange (riskScore_js i)"
proof -
  note f = field_bounds [OF w]
  have k: "boundedBy (10 ^ 0) (Fin 0.3)" "boundedBy (10 ^ 0) (Fin 0.25)"
    "boundedBy (10 ^ 0) (Fin 0.1)"
    by (rule boundedBy_const, simp)+
  have c100: "boundedBy (10 ^ 2) (Fin 100)" by (rule boundedBy_const) simp
  have returns: "boundedBy (10 ^ 101) (Fin 0.3 * (Fin (returnPolicy i) * Fin 10))"
    by (rule boundedBy_mul [OF k(1) boundedBy_scaled [OF f(18)]]) simp_all
  have warr: "boundedBy (10 ^ 101) (Fin 0.25 * (Fin (warranty i) * Fin 8))"
    by (rule boundedBy_mul [OF k(2) boundedBy_scaled [OF f(19)]]) simp_all
  have space: "boundedBy (10 ^ 101) (Fin 0.25 * (Fin (spaceFit i) * Fin 8))"
    by (rule boundedBy_mul [OF k(2) boundedBy_scaled [OF f(20)]]) simp_all
  have "boundedBy (10 ^ 102) (Fin 100 - Fin (altAvailable i) * Fin 7)"
    by (rule boundedBy_sub [OF c100 boundedBy_scaled [OF f(21)]]) simp_all
  then have alt: "boundedBy (10 ^ 102) (Fin 0.1 * (Fin 100 - Fin (altAvailable i) * Fin 7))"
    by (rule boundedBy_mul [OF k(3)]) simp_all
  have urg: "boundedBy (10 ^ 101) (Fin 0.1 * (Fin (urgency i) * Fin 6))"
    by (rule boundedBy_mul [OF k(3) boundedBy_scaled [OF f(22)]]) simp_all
  have clutter: "boundedBy (10 ^ 100)
      (if keepOldItem i then Fin (minimalismStrength i) else Fin 0)"
    using f(17) by (simp add: boundedBy_Fin)
  note s1 = boundedBy_add [OF returns warr, of 102]
  note s2 = boundedBy_add [OF s1 space, of 103]
  note s3 = boundedBy_add [OF s2 alt, of 104]
  note s4 = boundedBy_add [OF s3 urg, of 105]
  note s5 = boundedBy_sub [OF s4 clutter, of 106]
  show ?thesis
    unfolding riskScore_js_def Let_def
    by (rule inRange_clamp_default_js, rule s5) simp_all
qed

lemma decisionScore_js_inRange:
  assumes w: "fieldsWithin (10 ^ 100) i"
  shows "inRange (decisionScore_js i) \<and> isInteger (decisionScore_js i)"
proof -
  note f = field_bounds [OF w]
  have fin: "boundedBy (10 ^ 102) (Fin (wFinancial i) * financialScore_js i)"
    by (rule boundedBy_mul [OF f(23) boundedBy_inRange [OF financialScore_js_inRange [OF w]]])
       simp_all
  have util: "boundedBy (10 ^ 102) (Fin (wUtility i) * utilityScore_js i)"
    by (rule boundedBy_mul [OF f(24) boundedBy_inRange [OF utilityScore_js_inRange [OF w]]])
       simp_all
  have risk: "boundedBy (10 ^ 102) (Fin (wRisk i) * riskScore_js i)"
    by (rule boundedBy_mul [OF f(25) boundedBy_inRange [OF riskScore_js_inRange [OF w]]])
       simp_all
  note s1 = boundedBy_add [OF fin util, of 103]
  note s2 = boundedBy_add [OF s1 risk, of 104]
  have "inRange (clamp_default_js
      (Fin (wFinancial i) * financialScore_js i + Fin (wUtility i) * utilityScore_js i
         + Fin (wRisk i) * riskScore_js i))"
    by (rule inRange_clamp_default_js, rule s2) simp_all
  then show ?thesis
    unfolding decisionScore_js_def Let_def by (rule Math_round_js_inRange)
qed

subsection \<open>The range of the scores\<close>

lemma financialScore_js_cases: "financialScore_js i = NaN \<or> inRange (financialScore_js i)"
  unfolding financialScore_js_def Let_def by (rule clamp_default_js_cases)

lemma utilityScore_js_cases: "utilityScore_js i = NaN \<or> inRange (utilityScore_js i)"
  unfolding utilityScore_js_def Let_def by (rule clamp_default_js_cases)

lemma riskScore_js_cases: "riskScore_js i = NaN \<or> inRange (riskScore_js i)"
  unfolding riskScore_js_def Let_def by (rule clamp_default_js_cases)

lemma decisionScore_js_cases:
  "decisionScore_js i = NaN \<or> (inRange (decisionScore_js i) \<and> isInteger (decisionScore_js i))"
  unfolding decisionScore_js_def Let_def
  by (rule Math_round_js_cases) (rule clamp_default_js_cases)

text \<open>
  Claim C1, amended: each of the financial, utility and risk scores is \<open>NaN\<close> or lies
  between 0 and 100, and the decision score is \<open>NaN\<close> or an integer between 0 and 100.
  When every numeric field has magnitude at most \<open>10^100\<close>, no intermediate result
  overflows, none of the four is \<open>NaN\<close>, and so all four lie between 0 and 100 and the
  decision score is an integer.
\<close>

theorem scores_in_range_unless_overflow:
  "(financialScore_js i = NaN \<or> inRange (financialScore_js i)) \<and>
   (utilityScore_js i = NaN \<or> inRange (utilityScore_js i)) \<and>
   (riskScore_js i = NaN \<or> inRange (riskScore_js i)) \<and>
   (decisionScore_js i = NaN \<or> (inRange (decisionScore_js i) \<and> isInteger (decisionScore_js i))) \<and>
   (fieldsWithin (10 ^ 100) i \<longrightarrow>
      inRange (financialScore_js i) \<and> inRange (utilityScore_js i) \<and> inRange (riskScore_js i) \<and>
      inRange (decisionScore_js i) \<and> isInteger (decisionScore_js i))"
  using financialScore_js_cases [of i] utilityScore_js_cases [of i] riskScore_js_cases [of i]
    decisionScore_js_cases [of i] financialScore_js_inRange [of i] utilityScore_js_inRange [of i]
    riskScore_js_inRange [of i] decisionScore_js_inRange [of i]
  by blast

lemma fieldsWithin_initialInputs: "fieldsWithin (10 ^ 100) initialInputs"
  by (simp add: fieldsWithin_def initialInputs_fields)

theorem scores_in_range_unless_overflow_witness:
  "fieldsWithin (10 ^ 100) initialInputs \<and>
   inRange (financialScore_js initialInputs) \<and> inRange (utilityScore_js initialInputs) \<and>
   inRange (riskScore_js initialInputs) \<and> inRange (decisionScore_js initialInputs) \<and>
   isInteger (decisionScore_js initialInputs)"
  using scores_in_range_unless_overflow [of initialInputs] fieldsWithin_initialInputs
  by blast

subsection \<open>The initial form state on numbers with overflow\<close>

lemma fromReal_small: "\<bar>r\<bar> \<le> 10 ^ 6 \<Longrightarrow> fromReal r = Fin r"
  by (rule fromReal_Fin [of r 6]) simp_all

lemma stickerCost_js_initialInputs: "stickerCost_js initialInputs = Fin 565"
  by (simp add: stickerCost_js_def taxFor_js_def fromReal_small initialInputs_fields)

lemma resaleOffset_js_initialInputs: "resaleOffset_js initialInputs = Fin (129 / 2)"
  by (simp add: resaleOffset_js_def adjSaleProb_js_def adjSalePrice_js_def adjTimeHours_js_def
        Let_def cond_initialInputs demand_initialInputs CONDITION_PRESETS_def
        DEMAND_PRESETS_def clamp_js_def minus_number_def fromReal_small initialInputs_fields)

lemma effectiveCost_js_initialInputs: "effectiveCost_js initialInputs = Fin (1001 / 2)"
  by (simp add: effectiveCost_js_def stickerCost_js_initialInputs resaleOffset_js_initialInputs
        minus_number_def fromReal_small)

lemma costPerUse_js_initialInputs: "costPerUse_js initialInputs = Fin (5005 / 5196)"
  by (simp add: costPerUse_js_def totalExpectedUses_js_def effectiveCost_js_initialInputs
        fromReal_small initialInputs_fields)

lemma financialScore_js_initialInputs: "financialScore_js initialInputs = Fin (6509 / 100)"
  by (simp add: financialScore_js_def Let_def costPerUse_js_initialInputs
        effectiveCost_js_initialInputs clamp_default_js_def clamp_js_def minus_number_def
        fromReal_small initialInputs_fields)

lemma utilityScore_js_initialInputs: "utilityScore_js initialInputs = Fin (253 / 5)"
  by (simp add: utilityScore_js_def Let_def clamp_default_js_def clamp_js_def fromReal_small
        initialInputs_fields)

lemma riskScore_js_initialInputs: "riskScore_js initialInputs = Fin (579 / 10)"
  by (simp add: riskScore_js_def Let_def clamp_default_js_def clamp_js_def minus_number_def
        fromReal_small initialInputs_fields)

lemma decisionScore_js_initialInputs: "decisionScore_js initialInputs = Fin 58"
  by (simp add: decisionScore_js_def Let_def financialScore_js_initialInputs
        utilityScore_js_initialInputs riskScore_js_initialInputs clamp_default_js_def
        clamp_js_def fromReal_small Math_round_def initialInputs_fields)

lemma overflowInputs_same:
  "price overflowInputs = price initialInputs" "taxRatePct overflowInputs = taxRatePct initialInputs"
  "budgetImpact overflowInputs = budgetImpact initialInputs" "needLevel overflowInputs = needLevel initialInputs"
  "useFrequency overflowInputs = useFrequency initialInputs" "joyScore overflowInputs = joyScore initialInputs"
  "longevity overflowInputs = longevity initialInputs" "workRelated overflowInputs = workRelated initialInputs"
  "expectSalePrice overflowInputs = expectSalePrice initialInputs" "saleProbabilityPct overflowInputs = saleProbabilityPct initialInputs"
  "platformFees overflowInputs = platformFees initialInputs" "shipCost overflowInputs = shipCost initialInputs"
  "timeHours overflowInputs = timeHours initialInputs" "hourlyValue overflowInputs = hourlyValue initialInputs"
  "friction overflowInputs = friction initialInputs" "resaleAggressive overflowInputs = resaleAggressive initialInputs"
  "condKey overflowInputs = condKey initialInputs" "demandKey overflowInputs = demandKey initialInputs"
  "simulateWait overflowInputs = simulateWait initialInputs" "targetDiscountPct overflowInputs = targetDiscountPct initialInputs"
  "monthsToWait overflowInputs = monthsToWait initialInputs" "monthsOwn overflowInputs = monthsOwn initialInputs"
  "usesPerWeek overflowInputs = usesPerWeek initialInputs" "keepOldItem overflowInputs = keepOldItem initialInputs"
  "minimalismStrength overflowInputs = minimalismStrength initialInputs" "returnPolicy overflowInputs = returnPolicy initialInputs"
  "warranty overflowInputs = warranty initialInputs" "spaceFit overflowInputs = spaceFit initialInputs"
  "altAvailable overflowInputs = altAvailable initialInputs" "urgency overflowInputs = urgency initialInputs"
  "wRisk overflowInputs = wRisk initialInputs"
  by (simp_all add: overflowInputs_def)

lemma overflowInputs_presets:
  "cond overflowInputs = cond initialInputs" "demand overflowInputs = demand initialInputs"
  by (rule cond_cong demand_cong, simp add: overflowInputs_def)+

lemma overflowInputs_scores:
  "financialScore_js overflowInputs = financialScore_js initialInputs"
  "utilityScore_js overflowInputs = utilityScore_js initialInputs"
  "riskScore_js overflowInputs = riskScore_js initialInputs"
  by (simp_all only: Let_def financialScore_js_def utilityScore_js_def
        riskScore_js_def costPerUse_js_def totalExpectedUses_js_def effectiveCost_js_def
        resaleOffset_js_def stickerCost_js_def taxFor_js_def adjSaleProb_js_def
        adjSalePrice_js_def adjTimeHours_js_def overflowInputs_presets overflowInputs_same)

lemma overflow_products:
  "Fin overflowWeight * Fin (6509 / 100) = PosInf"
  "Fin (- overflowWeight) * Fin (253 / 5) = NegInf"
  by (simp_all add: overflowWeight_def fromReal_def overflowBound_def)

text \<open>
  Claim C1, as stated: for every input whose numeric fields are finite the four scores
  lie between 0 and 100. With the weights \<open>1e308\<close> and \<open>-1e308\<close>, both finite, the
  two weighted terms overflow to plus and minus infinity, their sum is \<open>NaN\<close>, and
  \<open>clamp\<close> and \<open>Math.round\<close> pass \<open>NaN\<close> on: the decision score is \<open>NaN\<close>.
\<close>

theorem decisionScore_NaN_overflowInputs:
  "wFinancial overflowInputs = overflowWeight \<and> wUtility overflowInputs = - overflowWeight \<and>
   overflowWeight < overflowBound \<and>
   decisionScore_js overflowInputs = NaN \<and> \<not> inRange (decisionScore_js overflowInputs)"
proof -
  have w: "wFinancial overflowInputs = overflowWeight"
    "wUtility overflowInputs = - overflowWeight"
    by (simp_all add: overflowInputs_def)
  have p: "Fin (wFinancial overflowInputs) * financialScore_js overflowInputs = PosInf"
    by (simp only: w overflowInputs_scores financialScore_js_initialInputs overflow_products)
  have q: "Fin (wUtility overflowInputs) * utilityScore_js overflowInputs = NegInf"
    by (simp only: w overflowInputs_scores utilityScore_js_initialInputs overflow_products)
  have d: "decisionScore_js overflowInputs = NaN"
    unfolding decisionScore_js_def Let_def p q
    by (simp add: clamp_default_js_def clamp_js_def)
  have b: "overflowWeight < overflowBound"
    by (simp add: overflowWeight_def overflowBound_def)
  have "\<not> inRange (decisionScore_js overflowInputs)"
    unfolding d by (simp add: inRange_def)
  then show ?thesis using w d b by blast
qed

end
